theory Spec2Isabelle
  imports Complex_Main
begin

section \<open>JavaScript values\<close>

text \<open>
  The services compute money with JavaScript numbers and read it from DECIMAL(15,2)
  columns, which the ORM hands over as strings. A number is \<open>NaN\<close> or a finite number,
  kept as an exact rational: the binary rounding of IEEE-754 doubles and the infinities
  are not part of the model (the only division of the code is by the constant 2).
  Arithmetic with \<open>NaN\<close> gives \<open>NaN\<close>, and every comparison with \<open>NaN\<close> is false.
\<close>

datatype jsnum = NaN | Num rat

fun js_add :: "jsnum \<Rightarrow> jsnum \<Rightarrow> jsnum" where
  "js_add (Num a) (Num b) = Num (a + b)"
| "js_add _ _ = NaN"

fun js_sub :: "jsnum \<Rightarrow> jsnum \<Rightarrow> jsnum" where
  "js_sub (Num a) (Num b) = Num (a - b)"
| "js_sub _ _ = NaN"

fun js_mul :: "jsnum \<Rightarrow> jsnum \<Rightarrow> jsnum" where
  "js_mul (Num a) (Num b) = Num (a * b)"
| "js_mul _ _ = NaN"

fun js_div :: "jsnum \<Rightarrow> jsnum \<Rightarrow> jsnum" where
  "js_div (Num a) (Num b) = (if b = 0 then NaN else Num (a / b))"
| "js_div _ _ = NaN"

fun js_neg :: "jsnum \<Rightarrow> jsnum" where
  "js_neg (Num a) = Num (- a)"
| "js_neg NaN = NaN"

text \<open>\<open>a < b\<close>, \<open>a <= b\<close> and \<open>a == b\<close> on numbers.\<close>

fun js_lt :: "jsnum \<Rightarrow> jsnum \<Rightarrow> bool" where
  "js_lt (Num a) (Num b) = (a < b)"
| "js_lt _ _ = False"

fun js_le :: "jsnum \<Rightarrow> jsnum \<Rightarrow> bool" where
  "js_le (Num a) (Num b) = (a \<le> b)"
| "js_le _ _ = False"

fun js_eq :: "jsnum \<Rightarrow> jsnum \<Rightarrow> bool" where
  "js_eq (Num a) (Num b) = (a = b)"
| "js_eq _ _ = False"

text \<open>
  A DECIMAL(15,2) column keeps two decimal places: the store rounds what it is given,
  half away from zero, and keeps \<open>NaN\<close> as it is (the numeric type of PostgreSQL, the
  store of the deployment, has that value). A value that does not fit the fifteen digits
  is one of the writes the store refuses (see \<open>rejects\<close> below).
\<close>

definition round_cents :: "rat \<Rightarrow> rat" where
  "round_cents x =
     (if 0 \<le> x then of_int \<lfloor>x * 100 + 1 / 2\<rfloor> / 100
      else - (of_int \<lfloor>- x * 100 + 1 / 2\<rfloor> / 100))"

fun dec2 :: "jsnum \<Rightarrow> jsnum" where
  "dec2 (Num a) = Num (round_cents a)"
| "dec2 NaN = NaN"

subsection \<open>Numbers as text\<close>

text \<open>
  \<open>decimal_string\<close> is the text of a DECIMAL(15,2) value as the ORM returns it
  (\<open>'100.00'\<close>); \<open>number_string\<close> is the text of a number (\<open>'95'\<close>, \<open>'95.5'\<close>), with at
  most seventeen decimal places and no exponent form.
\<close>

definition digit_char :: "int \<Rightarrow> char" where
  "digit_char n = ''0123456789'' ! nat (n mod 10)"

function digits_string :: "int \<Rightarrow> string" where
  "digits_string n =
     (if n < 10 then [digit_char n] else digits_string (n div 10) @ [digit_char n])"
  by pat_completeness auto

termination
  by (relation "measure nat") auto

declare digits_string.simps [simp del]

fun frac_string :: "nat \<Rightarrow> rat \<Rightarrow> string" where
  "frac_string k x =
     (if k = 0 \<or> x = 0 then []
      else digit_char \<lfloor>x * 10\<rfloor> # frac_string (k - 1) (x * 10 - of_int \<lfloor>x * 10\<rfloor>))"

declare frac_string.simps [simp del]

definition decimal_string :: "jsnum \<Rightarrow> string" where
  "decimal_string x =
     (case x of
        NaN \<Rightarrow> ''NaN''
      | Num r \<Rightarrow>
          (let c = \<lfloor>\<bar>r\<bar> * 100\<rfloor>
           in (if r < 0 \<and> c \<noteq> 0 then ''-'' else []) @ digits_string (c div 100) @ ''.'' @
              [digit_char (c div 10), digit_char c]))"

definition number_string :: "jsnum \<Rightarrow> string" where
  "number_string x =
     (case x of
        NaN \<Rightarrow> ''NaN''
      | Num r \<Rightarrow>
          (let a = \<bar>r\<bar>; i = \<lfloor>a\<rfloor>; f = a - of_int i
           in (if r < 0 then ''-'' else []) @ digits_string i @
              (if f = 0 then [] else ''.'' @ frac_string 17 f)))"

text \<open>
  Reading a decimal numeral: an optional sign, digits, optionally a point and digits.
  \<open>scan_decimal\<close> returns the value of the longest such prefix and the rest of the text.
  Leading white space, exponents and the words \<open>Infinity\<close> and \<open>0x\<close> are not read.
\<close>

definition is_digit :: "char \<Rightarrow> bool" where
  "is_digit c = (48 \<le> (of_char c :: int) \<and> (of_char c :: int) \<le> 57)"

definition digits_val :: "string \<Rightarrow> int" where
  "digits_val cs = foldl (\<lambda>a c. a * 10 + (of_char c - 48)) 0 cs"

definition scan_unsigned :: "string \<Rightarrow> (rat \<times> string) option" where
  "scan_unsigned s =
     (let ip = takeWhile is_digit s; r1 = dropWhile is_digit s
      in if r1 \<noteq> [] \<and> hd r1 = CHR ''.''
         then (let fp = takeWhile is_digit (tl r1); r2 = dropWhile is_digit (tl r1)
               in if ip = [] \<and> fp = [] then None
                  else Some (of_int (digits_val ip) + of_int (digits_val fp) / 10 ^ length fp, r2))
         else if ip = [] then None else Some (of_int (digits_val ip), r1))"

definition scan_decimal :: "string \<Rightarrow> (rat \<times> string) option" where
  "scan_decimal s =
     (if s \<noteq> [] \<and> hd s = CHR ''-''
      then map_option (\<lambda>(v, r). (- v, r)) (scan_unsigned (tl s))
      else if s \<noteq> [] \<and> hd s = CHR ''+'' then scan_unsigned (tl s)
      else scan_unsigned s)"

text \<open>
  A value that the code reads from a row, a request body or an object: \<open>undefined\<close>, a
  number or a string. \<open>ToNumber\<close> is the conversion that \<open>*\<close>, binary and unary \<open>-\<close> and
  a comparison with a number apply; \<open>parseFloat\<close> reads the longest numeric prefix;
  \<open>+\<close> concatenates as soon as one operand is a string; \<open><\<close> compares two strings by
  their characters and anything else as numbers.
\<close>

datatype jsval = Undefined | Number jsnum | Str string

definition ToNumber :: "jsval \<Rightarrow> jsnum" where
  "ToNumber v =
     (case v of
        Undefined \<Rightarrow> NaN
      | Number n \<Rightarrow> n
      | Str s \<Rightarrow>
          if s = [] then Num 0
          else (case scan_decimal s of
                  Some (x, rest) \<Rightarrow> if rest = [] then Num x else NaN
                | None \<Rightarrow> NaN))"

definition parseFloat :: "jsval \<Rightarrow> jsnum" where
  "parseFloat v =
     (case v of
        Undefined \<Rightarrow> NaN
      | Number n \<Rightarrow> n
      | Str s \<Rightarrow> (case scan_decimal s of Some (x, rest) \<Rightarrow> Num x | None \<Rightarrow> NaN))"

definition ToString :: "jsval \<Rightarrow> string" where
  "ToString v =
     (case v of Undefined \<Rightarrow> ''undefined'' | Number n \<Rightarrow> number_string n | Str s \<Rightarrow> s)"

definition js_plus :: "jsval \<Rightarrow> jsval \<Rightarrow> jsval" where
  "js_plus a b =
     (case a of
        Str s \<Rightarrow> Str (s @ ToString b)
      | _ \<Rightarrow> (case b of
                Str t \<Rightarrow> Str (ToString a @ t)
              | _ \<Rightarrow> Number (js_add (ToNumber a) (ToNumber b))))"

fun str_less :: "string \<Rightarrow> string \<Rightarrow> bool" where
  "str_less [] [] = False"
| "str_less [] (y # ys) = True"
| "str_less (x # xs) [] = False"
| "str_less (x # xs) (y # ys) =
     ((of_char x :: int) < of_char y \<or> (x = y \<and> str_less xs ys))"

definition js_less :: "jsval \<Rightarrow> jsval \<Rightarrow> bool" where
  "js_less a b =
     (case (a, b) of
        (Str s, Str t) \<Rightarrow> str_less s t
      | _ \<Rightarrow> js_lt (ToNumber a) (ToNumber b))"


section \<open>Rows, store and environment\<close>

text \<open>
  The services work on rows of a relational store through an ORM; the rows below have
  the attributes that the model files declare. Primary keys (UUIDs in the source) are
  natural numbers here. A money column holds the number that its DECIMAL text denotes
  (\<open>parseFloat\<close> and \<open>ToNumber\<close> of the text give that number); where the code uses the
  text as a string, \<open>decimal_string\<close> gives it. A table is the list of its rows, oldest
  first.
\<close>

type_synonym uid = nat

datatype wallet_status = W_active | W_suspended | W_closed

datatype tx_type = T_deposit | T_withdrawal | T_bet | T_win | T_fee | T_refund

datatype tx_status = TS_pending | TS_completed | TS_failed | TS_cancelled

text \<open>
  The Escrow model declares the five states \<open>active\<close>, \<open>completed\<close>, \<open>disputed\<close>,
  \<open>refunded\<close> and \<open>cancelled\<close>; the betting service writes and tests the two further
  strings \<open>held\<close> and \<open>released\<close>.
\<close>

datatype escrow_status =
  E_active | E_completed | E_disputed | E_refunded | E_cancelled | E_held | E_released

text \<open>
  The BetMatch model validates its status against \<open>active\<close>, \<open>settled\<close>, \<open>cancelled\<close> and
  \<open>refunded\<close>; the escrow service also writes \<open>disputed\<close>.
\<close>

datatype match_status = BM_active | BM_settled | BM_cancelled | BM_refunded | BM_disputed

datatype bet_status = B_open | B_matched | B_settled | B_cancelled | B_refunded

datatype payout_status = P_pending | P_completed | P_failed

text \<open>The User model has no attribute \<open>stripe_customer_id\<close>; of a user only the key
  matters here.\<close>

record user =
  u_id :: uid

record wallet =
  w_id :: uid
  w_user_id :: uid
  w_balance :: jsnum
  w_currency :: string
  w_status :: wallet_status
  w_stripe_customer_id :: "string option"

record tx_meta =
  m_escrow_id :: uid
  m_bet_match_id :: uid
  m_bet_id :: "uid option"
  m_role :: "string option"
  m_dispute_resolved_by :: "uid option"

record transaction =
  t_id :: uid
  t_wallet_id :: uid
  t_amount :: jsnum
  t_type :: tx_type
  t_status :: tx_status
  t_reference_id :: uid
  t_description :: "string option"
  t_metadata :: "tx_meta option"

record escrow =
  e_id :: uid
  e_bet_match_id :: uid
  e_amount :: jsnum
  e_status :: escrow_status
  e_winner_id :: "uid option"
  e_platform_fee :: jsnum
  e_released_at :: "nat option"
  e_dispute_reason :: "string option"
  e_resolution_notes :: "string option"
  e_resolved_by :: "uid option"

record event =
  ev_id :: uid
  ev_start_time :: nat

text \<open>\<open>bet_details\<close> is free-form JSON; \<open>spread\<close> and \<open>total\<close> are read through
  \<open>parseFloat\<close>, \<open>None\<close> standing for NaN.\<close>

record bet_details =
  bd_pick :: string
  bd_spread :: "rat option"
  bd_total :: "rat option"

text \<open>
  The Bet model: the creator's stake is \<open>stake_amount\<close>; the model declares no attribute
  \<open>amount\<close>.
\<close>

record bet =
  b_id :: uid
  b_creator_id :: uid
  b_event_id :: uid
  b_bet_type :: string
  b_bet_details :: bet_details
  b_odds :: jsnum
  b_stake_amount :: jsnum
  b_potential_payout :: jsnum
  b_status :: bet_status
  b_expiry_time :: nat

text \<open>
  The BetMatch model: the taker's stake is \<open>stake_amount\<close>. The model declares none of
  \<open>winner_id\<close>, \<open>escrow_created_at\<close>, \<open>settled_at\<close> and \<open>cancelled_at\<close>; an update that
  names them writes the status only.
\<close>

record betMatch =
  bm_id :: uid
  bm_bet_id :: uid
  bm_taker_id :: uid
  bm_stake_amount :: jsnum
  bm_potential_payout :: jsnum
  bm_status :: match_status
  bm_platform_fee :: jsnum
  bm_escrow_id :: uid

record payout =
  p_id :: uid
  p_user_id :: uid
  p_escrow_id :: uid
  p_amount :: jsnum
  p_status :: payout_status
  p_transaction_id :: uid
  p_payout_method :: string

record db =
  users :: "user list"
  wallets :: "wallet list"
  transactions :: "transaction list"
  escrows :: "escrow list"
  betMatches :: "betMatch list"
  bets :: "bet list"
  payouts :: "payout list"
  events :: "event list"

text \<open>
  Every \<open>throw new Error(message)\<close> of the wallet, escrow and betting services is one
  constructor:
  \<^item> \<open>UserNotFound\<close>: 'User not found';
  \<^item> \<open>WalletNotFound\<close>: 'Wallet not found';
  \<^item> \<open>WalletNotActive\<close>: 'Wallet is not active';
  \<^item> \<open>InsufficientFunds\<close>: 'Insufficient funds';
  \<^item> \<open>BetMatchNotFound\<close>: 'Bet match not found';
  \<^item> \<open>EscrowAlreadyExists\<close>: 'Escrow already exists for this bet match';
  \<^item> \<open>CreatorInsufficientFunds\<close>: 'Creator has insufficient funds';
  \<^item> \<open>TakerInsufficientFunds\<close>: 'Taker has insufficient funds';
  \<^item> \<open>EscrowNotFound\<close>: 'Escrow not found';
  \<^item> \<open>EscrowNotActive s\<close>: 'Escrow is not active, current status: s';
  \<^item> \<open>EscrowNotDisputed s\<close>: 'Escrow is not disputed, current status: s';
  \<^item> \<open>WinnerNotParty\<close>: 'Winner is not part of this bet';
  \<^item> \<open>UserNotParty\<close>: 'User is not part of this bet';
  \<^item> \<open>InsufficientBalance\<close>: 'Insufficient balance';
  \<^item> \<open>EventNotFound\<close>: 'Event not found';
  \<^item> \<open>CannotPlaceEventStarted\<close>: 'Cannot place bet on event that has already started';
  \<^item> \<open>BetNotFound\<close>: 'Bet not found';
  \<^item> \<open>BetNotOpen\<close>: 'Bet is not open for matching';
  \<^item> \<open>CannotTakeEventStarted\<close>: 'Cannot take bet on event that has already started';
  \<^item> \<open>CannotTakeOwnBet\<close>: 'Cannot take your own bet';
  \<^item> \<open>BetMatchNotActive\<close>: 'Bet match is not active';
  \<^item> \<open>EscrowNotHeld\<close>: 'Escrow funds are not held';
  \<^item> \<open>WinnerWalletNotFound\<close>: 'Winner wallet not found';
  \<^item> \<open>UnknownBetType\<close>: 'Unknown bet type';
  \<^item> \<open>StripeError\<close>: the call of the payment provider threw;
  \<^item> \<open>StoreError\<close>: the store refused a write (validation, constraint, connection);
  \<^item> \<open>TypeError\<close>: a property of a missing joined row was read.
\<close>

datatype error =
  UserNotFound | WalletNotFound | WalletNotActive | InsufficientFunds
  | BetMatchNotFound | EscrowAlreadyExists
  | CreatorInsufficientFunds | TakerInsufficientFunds
  | EscrowNotFound | EscrowNotActive escrow_status | EscrowNotDisputed escrow_status
  | WinnerNotParty | UserNotParty
  | InsufficientBalance | EventNotFound | CannotPlaceEventStarted
  | BetNotFound | BetNotOpen | CannotTakeEventStarted | CannotTakeOwnBet
  | BetMatchNotActive | EscrowNotHeld | WinnerWalletNotFound | UnknownBetType
  | StripeError | StoreError | TypeError

text \<open>A row that a service hands to the store; the store may refuse it.\<close>

datatype store_write =
  Wr_wallet wallet | Wr_transaction transaction | Wr_escrow escrow
  | Wr_betMatch betMatch | Wr_payout payout | Wr_bet bet

text \<open>
  What the code takes from outside: the environment variable \<open>PLATFORM_FEE\<close> after
  \<open>parseFloat\<close> (\<open>None\<close> when unset or not a number), the clock, the store's verdict on
  each write that passed the validation of its model, and the payment provider's
  customer creation (\<open>None\<close> when it throws).
\<close>

record env =
  PLATFORM_FEE :: "rat option"
  now :: nat
  rejects :: "store_write \<Rightarrow> bool"
  stripe_customers_create :: "uid \<Rightarrow> string option"

text \<open>\<open>PLATFORM_FEE_PERCENT: parseFloat(process.env.PLATFORM_FEE) || 0.03\<close>: zero and
  NaN are falsy.\<close>

definition PLATFORM_FEE_PERCENT :: "env \<Rightarrow> rat" where
  "PLATFORM_FEE_PERCENT env =
     (case PLATFORM_FEE env of
        None \<Rightarrow> 3 / 100
      | Some r \<Rightarrow> if r = 0 then 3 / 100 else r)"

subsection \<open>Errors as values\<close>

definition bindE :: "error + 'a \<Rightarrow> ('a \<Rightarrow> error + 'b) \<Rightarrow> error + 'b" where
  "bindE m f = (case m of Inl e \<Rightarrow> Inl e | Inr x \<Rightarrow> f x)"

subsection \<open>Store primitives\<close>

text \<open>
  A \<open>create\<close> validates the values against the model before it inserts: an attribute
  declared \<open>allowNull: false\<close> without a default must be among the values, a \<open>min\<close>
  validator rejects a number below its bound (and lets \<open>NaN\<close> through), an \<open>isDecimal\<close>
  validator rejects \<open>NaN\<close>, an \<open>isIn\<close> validator and an ENUM column reject a state they
  do not list. Values that name no attribute of the model are dropped. A money column
  stores \<open>dec2\<close> of what it is given. An \<open>update\<close> validates and writes the attributes it
  names. Any refusal is \<open>StoreError\<close>.
\<close>

fun next_id :: "uid list \<Rightarrow> uid" where
  "next_id [] = 0"
| "next_id (x # xs) = max (Suc x) (next_id xs)"

definition User_findByPk :: "uid \<Rightarrow> db \<Rightarrow> user option" where
  "User_findByPk i d = find (\<lambda>u. u_id u = i) (users d)"

definition Wallet_findByPk :: "uid \<Rightarrow> db \<Rightarrow> wallet option" where
  "Wallet_findByPk i d = find (\<lambda>w. w_id w = i) (wallets d)"

definition Wallet_findOne :: "uid \<Rightarrow> string \<Rightarrow> db \<Rightarrow> wallet option" where
  "Wallet_findOne userId currency d =
     find (\<lambda>w. w_user_id w = userId \<and> w_currency w = currency) (wallets d)"

text \<open>The Wallet model: \<open>balance\<close> is DECIMAL(15,2) with \<open>validate: { min: 0 }\<close>.\<close>

definition Wallet_create :: "env \<Rightarrow> wallet \<Rightarrow> db \<Rightarrow> error + (wallet \<times> db)" where
  "Wallet_create env w d =
     (let row = w\<lparr>w_id := next_id (map w_id (wallets d)), w_balance := dec2 (w_balance w)\<rparr>
      in if js_lt (w_balance w) (Num 0) \<or> rejects env (Wr_wallet row) then Inl StoreError
         else Inr (row, d\<lparr>wallets := wallets d @ [row]\<rparr>))"

text \<open>\<open>wallet.save\<close> returns the instance, whose balance is the number assigned to it;
  the row keeps that number to two places.\<close>

definition Wallet_save :: "env \<Rightarrow> wallet \<Rightarrow> db \<Rightarrow> error + (wallet \<times> db)" where
  "Wallet_save env w d =
     (let row = w\<lparr>w_balance := dec2 (w_balance w)\<rparr>
      in if js_lt (w_balance w) (Num 0) \<or> rejects env (Wr_wallet row) then Inl StoreError
         else Inr (w, d\<lparr>wallets := map (\<lambda>x. if w_id x = w_id w then row else x) (wallets d)\<rparr>))"

definition BetMatch_findByPk :: "uid \<Rightarrow> db \<Rightarrow> betMatch option" where
  "BetMatch_findByPk i d = find (\<lambda>m. bm_id m = i) (betMatches d)"

definition Bet_findByPk :: "uid \<Rightarrow> db \<Rightarrow> bet option" where
  "Bet_findByPk i d = find (\<lambda>b. b_id b = i) (bets d)"

definition Event_findByPk :: "uid \<Rightarrow> db \<Rightarrow> event option" where
  "Event_findByPk i d = find (\<lambda>e. ev_id e = i) (events d)"

definition Escrow_findByPk :: "uid \<Rightarrow> db \<Rightarrow> escrow option" where
  "Escrow_findByPk i d = find (\<lambda>e. e_id e = i) (escrows d)"

definition Escrow_findOne :: "uid \<Rightarrow> db \<Rightarrow> escrow option" where
  "Escrow_findOne betMatchId d = find (\<lambda>e. e_bet_match_id e = betMatchId) (escrows d)"

text \<open>
  The values of \<open>Escrow.create\<close>. The model requires \<open>bet_match_id\<close> and \<open>amount\<close>, checks
  \<open>amount\<close> with \<open>min: 0\<close> and keeps \<open>status\<close> in an ENUM of its five states;
  \<open>creator_amount\<close> and \<open>taker_amount\<close>, which the betting service passes, are no
  attributes of the model.
\<close>

record escrow_values =
  ec_bet_match_id :: "uid option"
  ec_amount :: "jsnum option"
  ec_status :: escrow_status
  ec_platform_fee :: jsnum
  ec_creator_amount :: "jsval option"
  ec_taker_amount :: "jsval option"

definition undeclared_state :: "escrow_status \<Rightarrow> bool" where
  "undeclared_state s = (s = E_held \<or> s = E_released)"

definition Escrow_create :: "env \<Rightarrow> escrow_values \<Rightarrow> db \<Rightarrow> error + (escrow \<times> db)" where
  "Escrow_create env v d =
     (case ec_bet_match_id v of
        None \<Rightarrow> Inl StoreError
      | Some betMatchId \<Rightarrow>
     (case ec_amount v of
        None \<Rightarrow> Inl StoreError
      | Some amount \<Rightarrow>
        (let row = \<lparr>e_id = next_id (map e_id (escrows d)), e_bet_match_id = betMatchId,
                    e_amount = dec2 amount, e_status = ec_status v, e_winner_id = None,
                    e_platform_fee = dec2 (ec_platform_fee v), e_released_at = None,
                    e_dispute_reason = None, e_resolution_notes = None,
                    e_resolved_by = None\<rparr>
         in if js_lt amount (Num 0) \<or> undeclared_state (ec_status v) \<or>
               rejects env (Wr_escrow row)
            then Inl StoreError
            else Inr (row, d\<lparr>escrows := escrows d @ [row]\<rparr>))))"

text \<open>\<open>escrow.update\<close>: the services change the status, the winner, the time of release
  and the dispute fields, never the two money columns.\<close>

definition Escrow_update :: "env \<Rightarrow> escrow \<Rightarrow> db \<Rightarrow> error + (escrow \<times> db)" where
  "Escrow_update env e d =
     (if undeclared_state (e_status e) \<or> rejects env (Wr_escrow e) then Inl StoreError
      else Inr (e, d\<lparr>escrows := map (\<lambda>x. if e_id x = e_id e then e else x) (escrows d)\<rparr>))"

text \<open>\<open>betMatch.update\<close> writes the status; the model's validator lists four states.\<close>

definition invalid_match_status :: "match_status \<Rightarrow> bool" where
  "invalid_match_status s = (s = BM_disputed)"

definition BetMatch_update :: "env \<Rightarrow> betMatch \<Rightarrow> db \<Rightarrow> error + db" where
  "BetMatch_update env m d =
     (if invalid_match_status (bm_status m) \<or> rejects env (Wr_betMatch m) then Inl StoreError
      else Inr (d\<lparr>betMatches := map (\<lambda>x. if bm_id x = bm_id m then m else x) (betMatches d)\<rparr>))"

text \<open>
  The BetMatch model requires all its attributes and validates the three money columns
  with \<open>isDecimal\<close>, \<open>stake_amount\<close> with \<open>min: 1\<close>, the two others with \<open>min: 0\<close>.
\<close>

definition not_decimal_min :: "rat \<Rightarrow> jsnum \<Rightarrow> bool" where
  "not_decimal_min m x = (x = NaN \<or> js_lt x (Num m))"

definition BetMatch_create :: "env \<Rightarrow> betMatch \<Rightarrow> db \<Rightarrow> error + (betMatch \<times> db)" where
  "BetMatch_create env m d =
     (let row = m\<lparr>bm_id := next_id (map bm_id (betMatches d)),
                  bm_stake_amount := dec2 (bm_stake_amount m),
                  bm_potential_payout := dec2 (bm_potential_payout m),
                  bm_platform_fee := dec2 (bm_platform_fee m)\<rparr>
      in if not_decimal_min 1 (bm_stake_amount m) \<or> not_decimal_min 0 (bm_potential_payout m) \<or>
            not_decimal_min 0 (bm_platform_fee m) \<or> invalid_match_status (bm_status m) \<or>
            rejects env (Wr_betMatch row)
         then Inl StoreError
         else Inr (row, d\<lparr>betMatches := betMatches d @ [row]\<rparr>))"

text \<open>
  The Bet model validates \<open>bet_type\<close> against its four kinds, the three money columns with
  \<open>isDecimal\<close>, \<open>stake_amount\<close> with \<open>min: 1\<close> and \<open>potential_payout\<close> with \<open>min: 0\<close>.
\<close>

definition unknown_bet_type :: "string \<Rightarrow> bool" where
  "unknown_bet_type t =
     (t \<noteq> ''moneyline'' \<and> t \<noteq> ''spread'' \<and> t \<noteq> ''over_under'' \<and> t \<noteq> ''prop'')"

definition Bet_create :: "env \<Rightarrow> bet \<Rightarrow> db \<Rightarrow> error + (bet \<times> db)" where
  "Bet_create env b d =
     (let row = b\<lparr>b_id := next_id (map b_id (bets d)), b_odds := dec2 (b_odds b),
                  b_stake_amount := dec2 (b_stake_amount b),
                  b_potential_payout := dec2 (b_potential_payout b)\<rparr>
      in if unknown_bet_type (b_bet_type b) \<or>
            b_odds b = NaN \<or> not_decimal_min 1 (b_stake_amount b) \<or>
            not_decimal_min 0 (b_potential_payout b) \<or> rejects env (Wr_bet row)
         then Inl StoreError
         else Inr (row, d\<lparr>bets := bets d @ [row]\<rparr>))"

definition Bet_update :: "env \<Rightarrow> bet \<Rightarrow> db \<Rightarrow> error + db" where
  "Bet_update env b d =
     (if rejects env (Wr_bet b) then Inl StoreError
      else Inr (d\<lparr>bets := map (\<lambda>x. if b_id x = b_id b then b else x) (bets d)\<rparr>))"

text \<open>
  The values of \<open>Transaction.create\<close>. The model requires \<open>wallet_id\<close>, \<open>amount\<close> and
  \<open>type\<close>; \<open>user_id\<close> and \<open>transaction_type\<close>, which the betting service passes instead of
  \<open>type\<close>, are no attributes of the model.
\<close>

record transaction_values =
  tc_wallet_id :: uid
  tc_amount :: jsnum
  tc_type :: "tx_type option"
  tc_status :: tx_status
  tc_reference_id :: uid
  tc_description :: "string option"
  tc_metadata :: "tx_meta option"
  tc_user_id :: "uid option"
  tc_transaction_type :: "string option"

definition Transaction_create ::
  "env \<Rightarrow> transaction_values \<Rightarrow> db \<Rightarrow> error + (transaction \<times> db)" where
  "Transaction_create env v d =
     (case tc_type v of
        None \<Rightarrow> Inl StoreError
      | Some ty \<Rightarrow>
        (let row = \<lparr>t_id = next_id (map t_id (transactions d)), t_wallet_id = tc_wallet_id v,
                    t_amount = dec2 (tc_amount v), t_type = ty, t_status = tc_status v,
                    t_reference_id = tc_reference_id v, t_description = tc_description v,
                    t_metadata = tc_metadata v\<rparr>
         in if rejects env (Wr_transaction row) then Inl StoreError
            else Inr (row, d\<lparr>transactions := transactions d @ [row]\<rparr>)))"

text \<open>The Payout model: \<open>amount\<close> is DECIMAL(15,2) with \<open>validate: { min: 0 }\<close>.\<close>

definition Payout_create :: "env \<Rightarrow> payout \<Rightarrow> db \<Rightarrow> error + (payout \<times> db)" where
  "Payout_create env p d =
     (let row = p\<lparr>p_id := next_id (map p_id (payouts d)), p_amount := dec2 (p_amount p)\<rparr>
      in if js_lt (p_amount p) (Num 0) \<or> rejects env (Wr_payout row) then Inl StoreError
         else Inr (row, d\<lparr>payouts := payouts d @ [row]\<rparr>))"


section \<open>Wallet service\<close>

text \<open>
  \<open>createWallet\<close> and \<open>getWallet\<close> take no transaction handle: what they write is
  committed at once. They return the outcome together with the store as it is afterwards.
  \<open>user.stripe_customer_id\<close> is \<open>undefined\<close> on every user, so the payment provider is
  asked for a customer each time a wallet is created; the \<open>user.update\<close> that follows
  names no attribute of the User model and writes nothing.
\<close>

definition createWallet :: "env \<Rightarrow> uid \<Rightarrow> string \<Rightarrow> db \<Rightarrow> (error + wallet) \<times> db" where
  "createWallet env userId currency d =
     (case User_findByPk userId d of
        None \<Rightarrow> (Inl UserNotFound, d)
      | Some u \<Rightarrow>
          (case Wallet_findOne userId currency d of
             Some existingWallet \<Rightarrow> (Inr existingWallet, d)
           | None \<Rightarrow>
               (case stripe_customers_create env userId of
                  None \<Rightarrow> (Inl StripeError, d)
                | Some stripeCustomerId \<Rightarrow>
                    (case Wallet_create env
                            \<lparr>w_id = 0, w_user_id = userId, w_balance = Num 0,
                             w_currency = currency, w_status = W_active,
                             w_stripe_customer_id = Some stripeCustomerId\<rparr> d of
                       Inl e \<Rightarrow> (Inl e, d)
                     | Inr (w, d1) \<Rightarrow> (Inr w, d1)))))"

definition getWallet :: "env \<Rightarrow> uid \<Rightarrow> db \<Rightarrow> (error + wallet) \<times> db" where
  "getWallet env userId d =
     (case Wallet_findOne userId ''USD'' d of
        None \<Rightarrow> createWallet env userId ''USD'' d
      | Some w \<Rightarrow> (Inr w, d))"

text \<open>
  \<open>updateBalance(walletId, amount, transaction)\<close>: the three checks in the source's
  order, then the assignment and the save. The guard is
  \<open>parseFloat(wallet.balance) + parseFloat(amount) < 0\<close>; every caller passes a number
  for \<open>amount\<close>. An error leaves nothing written.
\<close>

definition updateBalance :: "env \<Rightarrow> uid \<Rightarrow> jsnum \<Rightarrow> db \<Rightarrow> error + (wallet \<times> db)" where
  "updateBalance env walletId amount d =
     (case Wallet_findByPk walletId d of
        None \<Rightarrow> Inl WalletNotFound
      | Some w \<Rightarrow>
          if w_status w \<noteq> W_active then Inl WalletNotActive
          else if js_lt (js_add (w_balance w) amount) (Num 0) then Inl InsufficientFunds
          else Wallet_save env (w\<lparr>w_balance := js_add (w_balance w) amount\<rparr>) d)"


section \<open>Escrow service\<close>

text \<open>
  A service function that opens \<open>sequelize.transaction()\<close> works on a private copy of the
  store and returns it on \<open>commit\<close>; on \<open>rollback\<close> it returns the committed store. The
  wallet lookups inside these functions pass no transaction handle, so a wallet that
  \<open>getWallet\<close> creates is committed whatever happens later; \<open>in_tx c t\<close> is the
  transaction's copy \<open>t\<close> seeing the users and wallets committed in \<open>c\<close> (at every call
  site the transaction has not yet written to these two tables).
\<close>

definition in_tx :: "db \<Rightarrow> db \<Rightarrow> db" where
  "in_tx c t = t\<lparr>users := users c, wallets := wallets c\<rparr>"

record escrow_created =
  r_escrow_id :: uid
  r_amount :: jsnum
  r_platform_fee :: jsnum
  r_status :: escrow_status
  r_creator_transaction_id :: uid
  r_taker_transaction_id :: uid

record payout_released =
  r_payout_id :: uid
  r_winnings :: jsnum
  r_payout_status :: payout_status
  r_released_escrow_id :: uid

datatype resolution =
  Winner_declared uid uid jsnum
  | Refunded uid uid jsnum

subsection \<open>createEscrow\<close>

text \<open>
  \<open>createEscrow\<close> reads the stake as \<open>betMatch.bet.amount\<close>. The Bet model declares no
  attribute \<open>amount\<close>, so on every bet the read gives \<open>undefined\<close>.
\<close>

definition bet_amount :: "bet \<Rightarrow> jsval" where
  "bet_amount b = Undefined"

definition createEscrow :: "env \<Rightarrow> uid \<Rightarrow> db \<Rightarrow> (error + escrow_created) \<times> db" where
  "createEscrow env betMatchId d =
     (case BetMatch_findByPk betMatchId d of
        None \<Rightarrow> (Inl BetMatchNotFound, d)
      | Some betMatch \<Rightarrow>
      (case Escrow_findOne betMatchId d of
        Some existingEscrow \<Rightarrow> (Inl EscrowAlreadyExists, d)
      | None \<Rightarrow>
      (case Bet_findByPk (bm_bet_id betMatch) d of
        None \<Rightarrow> (Inl TypeError, d)
      | Some b \<Rightarrow>
      (let amount = js_mul (parseFloat (bet_amount b)) (Num 2);
           platformFee = js_mul amount (Num (PLATFORM_FEE_PERCENT env))
       in
      (case Escrow_create env
              \<lparr>ec_bet_match_id = Some betMatchId, ec_amount = Some amount,
               ec_status = E_active, ec_platform_fee = platformFee,
               ec_creator_amount = None, ec_taker_amount = None\<rparr> d of
        Inl err \<Rightarrow> (Inl err, d)
      | Inr (escrow, t1) \<Rightarrow>
      (case getWallet env (b_creator_id b) d of
        (Inl err, c1) \<Rightarrow> (Inl err, c1)
      | (Inr creatorWallet, c1) \<Rightarrow>
      (case getWallet env (bm_taker_id betMatch) c1 of
        (Inl err, c2) \<Rightarrow> (Inl err, c2)
      | (Inr takerWallet, c2) \<Rightarrow>
        if js_lt (w_balance creatorWallet) (parseFloat (bet_amount b))
        then (Inl CreatorInsufficientFunds, c2)
        else if js_lt (w_balance takerWallet) (parseFloat (bet_amount b))
        then (Inl TakerInsufficientFunds, c2)
        else
         (case
            bindE (Transaction_create env
                     \<lparr>tc_wallet_id = w_id creatorWallet,
                      tc_amount = js_neg (ToNumber (bet_amount b)),
                      tc_type = Some T_bet, tc_status = TS_completed,
                      tc_reference_id = e_id escrow,
                      tc_description = Some ''Funds placed in escrow for bet'',
                      tc_metadata = Some \<lparr>m_escrow_id = e_id escrow,
                                          m_bet_match_id = betMatchId,
                                          m_bet_id = Some (b_id b), m_role = Some ''creator'',
                                          m_dispute_resolved_by = None\<rparr>,
                      tc_user_id = None, tc_transaction_type = None\<rparr> (in_tx c2 t1))
              (\<lambda>(creatorTransaction, t2).
            bindE (Transaction_create env
                     \<lparr>tc_wallet_id = w_id takerWallet,
                      tc_amount = js_neg (ToNumber (bet_amount b)),
                      tc_type = Some T_bet, tc_status = TS_completed,
                      tc_reference_id = e_id escrow,
                      tc_description = Some ''Funds placed in escrow for bet'',
                      tc_metadata = Some \<lparr>m_escrow_id = e_id escrow,
                                          m_bet_match_id = betMatchId,
                                          m_bet_id = Some (b_id b), m_role = Some ''taker'',
                                          m_dispute_resolved_by = None\<rparr>,
                      tc_user_id = None, tc_transaction_type = None\<rparr> t2)
              (\<lambda>(takerTransaction, t3).
            bindE (updateBalance env (w_id creatorWallet) (js_neg (ToNumber (bet_amount b))) t3)
              (\<lambda>(_, t4).
            bindE (updateBalance env (w_id takerWallet) (js_neg (ToNumber (bet_amount b))) t4)
              (\<lambda>(_, t5).
            bindE (BetMatch_update env (betMatch\<lparr>bm_status := BM_active\<rparr>) t5)
              (\<lambda>t6.
            Inr (\<lparr>r_escrow_id = e_id escrow, r_amount = amount,
                  r_platform_fee = platformFee, r_status = E_active,
                  r_creator_transaction_id = t_id creatorTransaction,
                  r_taker_transaction_id = t_id takerTransaction\<rparr>, t6)))))) of
            Inl err \<Rightarrow> (Inl err, c2)
          | Inr (r, t') \<Rightarrow> (Inr r, t')))))))))"

subsection \<open>releaseEscrow\<close>

definition releaseEscrow :: "env \<Rightarrow> uid \<Rightarrow> uid \<Rightarrow> db \<Rightarrow> (error + payout_released) \<times> db" where
  "releaseEscrow env escrowId winnerId d =
     (case Escrow_findByPk escrowId d of
        None \<Rightarrow> (Inl EscrowNotFound, d)
      | Some escrow \<Rightarrow>
        if e_status escrow \<noteq> E_active then (Inl (EscrowNotActive (e_status escrow)), d)
        else
      (case BetMatch_findByPk (e_bet_match_id escrow) d of
        None \<Rightarrow> (Inl TypeError, d)
      | Some betMatch \<Rightarrow>
      (case Bet_findByPk (bm_bet_id betMatch) d of
        None \<Rightarrow> (Inl TypeError, d)
      | Some b \<Rightarrow>
        if winnerId \<noteq> b_creator_id b \<and> winnerId \<noteq> bm_taker_id betMatch
        then (Inl WinnerNotParty, d)
        else
      (let winnings = js_sub (e_amount escrow) (e_platform_fee escrow) in
      (case getWallet env winnerId d of
        (Inl err, c1) \<Rightarrow> (Inl err, c1)
      | (Inr wallet, c1) \<Rightarrow>
         (case
            bindE (Transaction_create env
                     \<lparr>tc_wallet_id = w_id wallet, tc_amount = winnings,
                      tc_type = Some T_win, tc_status = TS_completed,
                      tc_reference_id = e_id escrow,
                      tc_description = Some ''Bet winnings'',
                      tc_metadata = Some \<lparr>m_escrow_id = e_id escrow,
                                          m_bet_match_id = e_bet_match_id escrow,
                                          m_bet_id = None, m_role = None,
                                          m_dispute_resolved_by = None\<rparr>,
                      tc_user_id = None, tc_transaction_type = None\<rparr> c1)
              (\<lambda>(tx, t1).
            bindE (updateBalance env (w_id wallet) winnings t1)
              (\<lambda>(_, t2).
            bindE (Payout_create env
                     \<lparr>p_id = 0, p_user_id = winnerId, p_escrow_id = e_id escrow,
                      p_amount = winnings, p_status = P_completed,
                      p_transaction_id = t_id tx, p_payout_method = ''wallet''\<rparr> t2)
              (\<lambda>(po, t3).
            bindE (Escrow_update env
                     (escrow\<lparr>e_status := E_completed, e_winner_id := Some winnerId,
                             e_released_at := Some (now env)\<rparr>) t3)
              (\<lambda>(_, t4).
            bindE (BetMatch_update env (betMatch\<lparr>bm_status := BM_settled\<rparr>) t4)
              (\<lambda>t5.
            Inr (\<lparr>r_payout_id = p_id po, r_winnings = winnings,
                  r_payout_status = P_completed,
                  r_released_escrow_id = e_id escrow\<rparr>, t5)))))) of
            Inl err \<Rightarrow> (Inl err, c1)
          | Inr (r, t') \<Rightarrow> (Inr r, t')))))))"

subsection \<open>createDispute\<close>

text \<open>\<open>createDispute\<close> opens no transaction: each of its two updates is committed as
  it is made.\<close>

definition createDispute :: "env \<Rightarrow> uid \<Rightarrow> uid \<Rightarrow> string \<Rightarrow> db \<Rightarrow> (error + escrow) \<times> db" where
  "createDispute env escrowId userId reason d =
     (case Escrow_findByPk escrowId d of
        None \<Rightarrow> (Inl EscrowNotFound, d)
      | Some escrow \<Rightarrow>
        if e_status escrow \<noteq> E_active then (Inl (EscrowNotActive (e_status escrow)), d)
        else
      (case BetMatch_findByPk (e_bet_match_id escrow) d of
        None \<Rightarrow> (Inl TypeError, d)
      | Some betMatch \<Rightarrow>
      (case Bet_findByPk (bm_bet_id betMatch) d of
        None \<Rightarrow> (Inl TypeError, d)
      | Some b \<Rightarrow>
        if userId \<noteq> b_creator_id b \<and> userId \<noteq> bm_taker_id betMatch
        then (Inl UserNotParty, d)
        else
      (case Escrow_update env
              (escrow\<lparr>e_status := E_disputed, e_dispute_reason := Some reason\<rparr>) d of
        Inl err \<Rightarrow> (Inl err, d)
      | Inr (escrow', d1) \<Rightarrow>
      (case BetMatch_update env (betMatch\<lparr>bm_status := BM_disputed\<rparr>) d1 of
        Inl err \<Rightarrow> (Inl err, d1)
      | Inr d2 \<Rightarrow> (Inr escrow', d2))))))"

subsection \<open>resolveDispute\<close>

text \<open>\<open>if (winnerId)\<close>: a winner id that is \<open>null\<close> is \<open>None\<close>.\<close>

definition resolveDispute ::
  "env \<Rightarrow> uid \<Rightarrow> uid option \<Rightarrow> uid \<Rightarrow> string \<Rightarrow> db \<Rightarrow> (error + resolution) \<times> db" where
  "resolveDispute env escrowId winnerId adminId notes d =
     (case Escrow_findByPk escrowId d of
        None \<Rightarrow> (Inl EscrowNotFound, d)
      | Some escrow0 \<Rightarrow>
        if e_status escrow0 \<noteq> E_disputed
        then (Inl (EscrowNotDisputed (e_status escrow0)), d)
        else
      (case Escrow_update env
              (escrow0\<lparr>e_resolved_by := Some adminId, e_resolution_notes := Some notes\<rparr>) d of
        Inl err \<Rightarrow> (Inl err, d)
      | Inr (escrow, t1) \<Rightarrow>
      (case winnerId of
        Some winner \<Rightarrow>
          (case Escrow_update env
                  (escrow\<lparr>e_status := E_completed, e_winner_id := Some winner,
                          e_released_at := Some (now env)\<rparr>) t1 of
             Inl err \<Rightarrow> (Inl err, d)
           | Inr (escrow', t2) \<Rightarrow>
          (let winnings = js_sub (e_amount escrow') (e_platform_fee escrow') in
          (case getWallet env winner d of
             (Inl err, c1) \<Rightarrow> (Inl err, c1)
           | (Inr wallet, c1) \<Rightarrow>
             (case
                bindE (Transaction_create env
                         \<lparr>tc_wallet_id = w_id wallet, tc_amount = winnings,
                          tc_type = Some T_win, tc_status = TS_completed,
                          tc_reference_id = e_id escrow',
                          tc_description = Some ''Bet winnings (dispute resolved)'',
                          tc_metadata = Some \<lparr>m_escrow_id = e_id escrow',
                                              m_bet_match_id = e_bet_match_id escrow',
                                              m_bet_id = None, m_role = None,
                                              m_dispute_resolved_by = Some adminId\<rparr>,
                          tc_user_id = None, tc_transaction_type = None\<rparr>
                         (in_tx c1 t2))
                  (\<lambda>(tx, t3).
                bindE (updateBalance env (w_id wallet) winnings t3)
                  (\<lambda>(_, t4).
                bindE (Payout_create env
                         \<lparr>p_id = 0, p_user_id = winner, p_escrow_id = e_id escrow',
                          p_amount = winnings, p_status = P_completed,
                          p_transaction_id = t_id tx, p_payout_method = ''wallet''\<rparr> t4)
                  (\<lambda>(po, t5).
                bindE (case BetMatch_findByPk (e_bet_match_id escrow') d of
                         None \<Rightarrow> Inl TypeError
                       | Some betMatch \<Rightarrow>
                           BetMatch_update env (betMatch\<lparr>bm_status := BM_settled\<rparr>) t5)
                  (\<lambda>t6.
                Inr (Winner_declared winner (p_id po) winnings, t6))))) of
                Inl err \<Rightarrow> (Inl err, c1)
              | Inr (r, t') \<Rightarrow> (Inr r, t')))))
      | None \<Rightarrow>
          (case BetMatch_findByPk (e_bet_match_id escrow) d of
             None \<Rightarrow> (Inl TypeError, d)
           | Some betMatch \<Rightarrow>
          (case Bet_findByPk (bm_bet_id betMatch) d of
             None \<Rightarrow> (Inl TypeError, d)
           | Some b \<Rightarrow>
          (let creatorId = b_creator_id b;
               takerId = bm_taker_id betMatch;
               betAmount = js_div (e_amount escrow) (Num 2)
           in
          (case getWallet env creatorId d of
             (Inl err, c1) \<Rightarrow> (Inl err, c1)
           | (Inr creatorWallet, c1) \<Rightarrow>
          (case getWallet env takerId c1 of
             (Inl err, c2) \<Rightarrow> (Inl err, c2)
           | (Inr takerWallet, c2) \<Rightarrow>
             (case
                bindE (Transaction_create env
                         \<lparr>tc_wallet_id = w_id creatorWallet, tc_amount = betAmount,
                          tc_type = Some T_refund, tc_status = TS_completed,
                          tc_reference_id = e_id escrow,
                          tc_description = Some ''Bet refund (dispute resolved)'',
                          tc_metadata = Some \<lparr>m_escrow_id = e_id escrow,
                                              m_bet_match_id = e_bet_match_id escrow,
                                              m_bet_id = None, m_role = Some ''creator'',
                                              m_dispute_resolved_by = Some adminId\<rparr>,
                          tc_user_id = None, tc_transaction_type = None\<rparr>
                         (in_tx c2 t1))
                  (\<lambda>(creatorTransaction, t2).
                bindE (Transaction_create env
                         \<lparr>tc_wallet_id = w_id takerWallet, tc_amount = betAmount,
                          tc_type = Some T_refund, tc_status = TS_completed,
                          tc_reference_id = e_id escrow,
                          tc_description = Some ''Bet refund (dispute resolved)'',
                          tc_metadata = Some \<lparr>m_escrow_id = e_id escrow,
                                              m_bet_match_id = e_bet_match_id escrow,
                                              m_bet_id = None, m_role = Some ''taker'',
                                              m_dispute_resolved_by = Some adminId\<rparr>,
                          tc_user_id = None, tc_transaction_type = None\<rparr> t2)
                  (\<lambda>(takerTransaction, t3).
                bindE (updateBalance env (w_id creatorWallet) betAmount t3)
                  (\<lambda>(_, t4).
                bindE (updateBalance env (w_id takerWallet) betAmount t4)
                  (\<lambda>(_, t5).
                bindE (Escrow_update env
                         (escrow\<lparr>e_status := E_refunded,
                                 e_released_at := Some (now env)\<rparr>) t5)
                  (\<lambda>(_, t6).
                bindE (BetMatch_update env (betMatch\<lparr>bm_status := BM_cancelled\<rparr>) t6)
                  (\<lambda>t7.
                Inr (Refunded (t_id creatorTransaction) (t_id takerTransaction) betAmount,
                     t7))))))) of
                Inl err \<Rightarrow> (Inl err, c2)
              | Inr (r, t') \<Rightarrow> (Inr r, t'))))))))))"

subsection \<open>Sequences of operations\<close>

datatype operation =
  UpdateBalance uid jsnum
  | CreateEscrow uid
  | Release uid uid
  | OpenDispute uid uid string
  | ResolveDispute uid "uid option" uid string

text \<open>The store after one call, whether the call returned or threw.\<close>

fun step :: "env \<Rightarrow> operation \<Rightarrow> db \<Rightarrow> db" where
  "step env (UpdateBalance walletId amount) d =
     (case updateBalance env walletId amount d of Inl _ \<Rightarrow> d | Inr (_, d') \<Rightarrow> d')"
| "step env (CreateEscrow betMatchId) d = snd (createEscrow env betMatchId d)"
| "step env (Release escrowId winnerId) d = snd (releaseEscrow env escrowId winnerId d)"
| "step env (OpenDispute escrowId userId reason) d =
     snd (createDispute env escrowId userId reason d)"
| "step env (ResolveDispute escrowId winnerId adminId notes) d =
     snd (resolveDispute env escrowId winnerId adminId notes d)"

fun run :: "env \<Rightarrow> operation list \<Rightarrow> db \<Rightarrow> db" where
  "run env [] d = d"
| "run env (x # xs) d = run env xs (step env x d)"


section \<open>Betting service\<close>

text \<open>
  The betting service works on the same tables. Every query of this service passes the
  transaction handle, so a call either commits all its writes or, on any error, none: a
  call returns its result with the store it committed, or the error alone, the store
  being as it was.
\<close>

text \<open>The request body of \<open>createBet\<close>; the stake and the odds come as the client sent
  them, a number or a string.\<close>

record betData =
  d_event_id :: uid
  d_bet_type :: string
  d_bet_details :: bet_details
  d_odds :: jsval
  d_stake_amount :: jsval
  d_expiry_time :: "nat option"

record event_result =
  home_score :: rat
  away_score :: rat

text \<open>\<open>Wallet.findOne({ where: { user_id } })\<close> and
  \<open>wallet.decrement('balance', { by })\<close>, \<open>wallet.increment('balance', { by })\<close>, which
  the store computes on the column.\<close>

definition wallet_of_user :: "uid \<Rightarrow> db \<Rightarrow> wallet option" where
  "wallet_of_user userId d = find (\<lambda>w. w_user_id w = userId) (wallets d)"

definition wallet_increment :: "uid \<Rightarrow> jsnum \<Rightarrow> db \<Rightarrow> db" where
  "wallet_increment walletId by d =
     d\<lparr>wallets := map (\<lambda>w. if w_id w = walletId
                            then w\<lparr>w_balance := dec2 (js_add (w_balance w) by)\<rparr> else w)
                       (wallets d)\<rparr>"

definition wallet_decrement :: "uid \<Rightarrow> jsnum \<Rightarrow> db \<Rightarrow> db" where
  "wallet_decrement walletId by d =
     d\<lparr>wallets := map (\<lambda>w. if w_id w = walletId
                            then w\<lparr>w_balance := dec2 (js_sub (w_balance w) by)\<rparr> else w)
                       (wallets d)\<rparr>"

subsection \<open>createBet\<close>

text \<open>
  \<open>wallet.balance < betData.stake_amount\<close> compares the balance's text with the body's
  value. The transaction record is created with \<open>user_id\<close> and \<open>transaction_type\<close> and
  without \<open>type\<close>.
\<close>

definition createBet :: "env \<Rightarrow> uid \<Rightarrow> betData \<Rightarrow> db \<Rightarrow> error + (bet \<times> db)" where
  "createBet env userId data d =
     (case wallet_of_user userId d of
        None \<Rightarrow> Inl WalletNotFound
      | Some w \<Rightarrow>
        if js_less (Str (decimal_string (w_balance w))) (d_stake_amount data)
        then Inl InsufficientBalance
        else
      (case Event_findByPk (d_event_id data) d of
        None \<Rightarrow> Inl EventNotFound
      | Some ev \<Rightarrow>
        if ev_start_time ev \<le> now env then Inl CannotPlaceEventStarted
        else
      (let potentialPayout = js_mul (ToNumber (d_stake_amount data)) (ToNumber (d_odds data))
       in
        bindE (Bet_create env
                 \<lparr>b_id = 0, b_creator_id = userId, b_event_id = d_event_id data,
                  b_bet_type = d_bet_type data, b_bet_details = d_bet_details data,
                  b_odds = ToNumber (d_odds data),
                  b_stake_amount = ToNumber (d_stake_amount data),
                  b_potential_payout = potentialPayout, b_status = B_open,
                  b_expiry_time = (case d_expiry_time data of
                                     None \<Rightarrow> ev_start_time ev
                                   | Some x \<Rightarrow> if x = 0 then ev_start_time ev else x)\<rparr> d)
          (\<lambda>(b, d1).
        bindE (Transaction_create env
                 \<lparr>tc_wallet_id = w_id w, tc_amount = js_neg (ToNumber (d_stake_amount data)),
                  tc_type = None, tc_status = TS_completed, tc_reference_id = b_id b,
                  tc_description = None, tc_metadata = None,
                  tc_user_id = Some userId, tc_transaction_type = Some ''bet_place''\<rparr> d1)
          (\<lambda>(_, d2).
        Inr (b, wallet_decrement (w_id w) (ToNumber (d_stake_amount data)) d2))))))"

subsection \<open>takeBet\<close>

text \<open>
  The three amounts that \<open>takeBet\<close> computes from the bet. \<open>bet.potential_payout\<close> and
  \<open>bet.stake_amount\<close> are DECIMAL texts: their difference is a number, but
  \<open>bet.stake_amount + requiredStake\<close> is the stake's text followed by the text of the
  required stake. The fee rate \<open>auth.platformFee\<close> is configured by the same expression
  as \<open>PLATFORM_FEE_PERCENT\<close>.
\<close>

definition requiredStake_of :: "bet \<Rightarrow> jsnum" where
  "requiredStake_of b = js_sub (b_potential_payout b) (b_stake_amount b)"

definition totalPot_of :: "bet \<Rightarrow> jsval" where
  "totalPot_of b =
     js_plus (Str (decimal_string (b_stake_amount b))) (Number (requiredStake_of b))"

definition platformFee_of :: "env \<Rightarrow> bet \<Rightarrow> jsnum" where
  "platformFee_of env b = js_mul (ToNumber (totalPot_of b)) (Num (PLATFORM_FEE_PERCENT env))"

text \<open>
  The escrow is created with \<open>creator_amount\<close>, \<open>taker_amount\<close>, \<open>platform_fee\<close> and the
  status \<open>held\<close>, and without \<open>bet_match_id\<close> and \<open>amount\<close>.
\<close>

definition takeBet ::
  "env \<Rightarrow> uid \<Rightarrow> uid \<Rightarrow> db \<Rightarrow> error + ((betMatch \<times> escrow) \<times> db)" where
  "takeBet env userId betId d =
     (case Bet_findByPk betId d of
        None \<Rightarrow> Inl BetNotFound
      | Some b \<Rightarrow>
        if b_status b \<noteq> B_open then Inl BetNotOpen
        else
      (case Event_findByPk (b_event_id b) d of
        None \<Rightarrow> Inl TypeError
      | Some ev \<Rightarrow>
        if ev_start_time ev \<le> now env then Inl CannotTakeEventStarted
        else if b_creator_id b = userId then Inl CannotTakeOwnBet
        else
      (case wallet_of_user userId d of
        None \<Rightarrow> Inl WalletNotFound
      | Some w \<Rightarrow>
      (let requiredStake = requiredStake_of b in
        if js_lt (w_balance w) requiredStake then Inl InsufficientBalance
        else
      (let platformFee = platformFee_of env b in
        bindE (Escrow_create env
                 \<lparr>ec_bet_match_id = None, ec_amount = None, ec_status = E_held,
                  ec_platform_fee = platformFee,
                  ec_creator_amount = Some (Str (decimal_string (b_stake_amount b))),
                  ec_taker_amount = Some (Number requiredStake)\<rparr> d)
          (\<lambda>(escrow, d1).
        bindE (BetMatch_create env
                 \<lparr>bm_id = 0, bm_bet_id = b_id b, bm_taker_id = userId,
                  bm_stake_amount = requiredStake,
                  bm_potential_payout = js_sub (ToNumber (totalPot_of b)) platformFee,
                  bm_status = BM_active, bm_platform_fee = platformFee,
                  bm_escrow_id = e_id escrow\<rparr> d1)
          (\<lambda>(betMatch, d2).
        bindE (Escrow_update env (escrow\<lparr>e_bet_match_id := bm_id betMatch\<rparr>) d2)
          (\<lambda>(escrow', d3).
        bindE (Bet_update env (b\<lparr>b_status := B_matched\<rparr>) d3)
          (\<lambda>d4.
        bindE (Transaction_create env
                 \<lparr>tc_wallet_id = w_id w, tc_amount = js_neg requiredStake,
                  tc_type = None, tc_status = TS_completed, tc_reference_id = bm_id betMatch,
                  tc_description = None, tc_metadata = None,
                  tc_user_id = Some userId, tc_transaction_type = Some ''bet_place''\<rparr> d4)
          (\<lambda>(_, d5).
        Inr ((betMatch, escrow'), wallet_decrement (w_id w) requiredStake d5)))))))))))"

subsection \<open>determineWinner\<close>

text \<open>
  \<open>determineWinner(bet, eventResult)\<close> reads \<open>bet.matches[0].taker_id\<close> before it looks at
  the bet type. The second argument is \<open>bet.matches\<close>: \<open>None\<close> when the association was
  not loaded with the bet, in which case (as for an empty list) the read throws.
  A comparison with NaN is false.
\<close>

definition determineWinner ::
  "bet \<Rightarrow> betMatch list option \<Rightarrow> event_result \<Rightarrow> error + uid" where
  "determineWinner b matches eventResult =
     (let home_score = home_score eventResult;
          away_score = away_score eventResult;
          creator_id = b_creator_id b;
          bet_type = b_bet_type b;
          bet_details = b_bet_details b
      in case matches of
           None \<Rightarrow> Inl TypeError
         | Some [] \<Rightarrow> Inl TypeError
         | Some (m # _) \<Rightarrow>
            (let taker_id = bm_taker_id m in
             if bet_type = ''moneyline'' then
               (if bd_pick bet_details = ''home''
                then Inr (if home_score > away_score then creator_id else taker_id)
                else Inr (if away_score > home_score then creator_id else taker_id))
             else if bet_type = ''spread'' then
               (case bd_spread bet_details of
                  None \<Rightarrow> Inr taker_id
                | Some spread \<Rightarrow>
                   (let adjustedHomeScore = home_score + spread in
                    if bd_pick bet_details = ''home''
                    then Inr (if adjustedHomeScore > away_score then creator_id else taker_id)
                    else Inr (if adjustedHomeScore < away_score then creator_id else taker_id)))
             else if bet_type = ''over_under'' then
               (case bd_total bet_details of
                  None \<Rightarrow> Inr taker_id
                | Some total' \<Rightarrow>
                   (let actualTotal = home_score + away_score in
                    if bd_pick bet_details = ''over''
                    then Inr (if actualTotal > total' then creator_id else taker_id)
                    else Inr (if actualTotal < total' then creator_id else taker_id)))
             else if bet_type = ''prop'' then Inr creator_id
             else Inl UnknownBetType))"

subsection \<open>settleBet\<close>

text \<open>
  \<open>settleBet\<close> loads the bet match with its bet (joined with event and creator), its taker
  and its escrow; the bet's \<open>matches\<close> are not part of the query, so \<open>determineWinner\<close>
  is called on a bet whose \<open>matches\<close> is undefined. The pot is
  \<open>escrow.creator_amount + escrow.taker_amount\<close>, two reads of attributes that the Escrow
  model does not declare; the two transaction records carry \<open>transaction_type\<close> and no
  \<open>type\<close>.
\<close>

definition settleBet ::
  "env \<Rightarrow> uid \<Rightarrow> event_result \<Rightarrow> db \<Rightarrow> error + ((betMatch \<times> uid \<times> jsnum) \<times> db)" where
  "settleBet env betMatchId eventResult d =
     (case BetMatch_findByPk betMatchId d of
        None \<Rightarrow> Inl BetMatchNotFound
      | Some betMatch \<Rightarrow>
        if bm_status betMatch \<noteq> BM_active then Inl BetMatchNotActive
        else
      (case Escrow_findOne betMatchId d of
        None \<Rightarrow> Inl TypeError
      | Some escrow \<Rightarrow>
        if e_status escrow \<noteq> E_held then Inl EscrowNotHeld
        else
      (case Bet_findByPk (bm_bet_id betMatch) d of
        None \<Rightarrow> Inl TypeError
      | Some b \<Rightarrow>
      (case determineWinner b None eventResult of
        Inl err \<Rightarrow> Inl err
      | Inr winnerId \<Rightarrow>
      (case wallet_of_user winnerId d of
        None \<Rightarrow> Inl WinnerWalletNotFound
      | Some winnerWallet \<Rightarrow>
      (let totalPot = js_plus Undefined Undefined;
           winnings = js_sub (ToNumber totalPot) (e_platform_fee escrow)
       in
        bindE (Escrow_update env
                 (escrow\<lparr>e_status := E_released, e_winner_id := Some winnerId,
                         e_released_at := Some (now env)\<rparr>) d)
          (\<lambda>(_, d1).
        bindE (BetMatch_update env (betMatch\<lparr>bm_status := BM_settled\<rparr>) d1)
          (\<lambda>d2.
        bindE (Transaction_create env
                 \<lparr>tc_wallet_id = w_id winnerWallet, tc_amount = winnings,
                  tc_type = None, tc_status = TS_completed, tc_reference_id = bm_id betMatch,
                  tc_description = None, tc_metadata = None,
                  tc_user_id = Some winnerId, tc_transaction_type = Some ''bet_win''\<rparr> d2)
          (\<lambda>(_, d3).
        bindE (Transaction_create env
                 \<lparr>tc_wallet_id = w_id winnerWallet,
                  tc_amount = js_neg (e_platform_fee escrow),
                  tc_type = None, tc_status = TS_completed, tc_reference_id = bm_id betMatch,
                  tc_description = None, tc_metadata = None,
                  tc_user_id = Some winnerId, tc_transaction_type = Some ''fee''\<rparr> d3)
          (\<lambda>(_, d4).
        Inr ((betMatch\<lparr>bm_status := BM_settled\<rparr>, winnerId, winnings),
             wallet_increment (w_id winnerWallet) winnings d4)))))))))))"


section \<open>Notions of the specification\<close>

text \<open>Wallet non-negativity: every wallet row satisfies \<open>balance >= 0\<close>.\<close>

definition nonneg :: "db \<Rightarrow> bool" where
  "nonneg d = list_all (\<lambda>w. js_le (Num 0) (w_balance w)) (wallets d)"

text \<open>The balance of a user's USD wallet, zero while the wallet does not exist yet.\<close>

definition balance_of :: "uid \<Rightarrow> db \<Rightarrow> jsnum" where
  "balance_of userId d =
     (case Wallet_findOne userId ''USD'' d of None \<Rightarrow> Num 0 | Some w \<Rightarrow> w_balance w)"

text \<open>The escrow state machine of the specification:
  \<open>active \<rightarrow> completed | disputed | refunded | cancelled\<close> and
  \<open>disputed \<rightarrow> completed | refunded\<close>.\<close>

fun legal_transition :: "escrow_status \<Rightarrow> escrow_status \<Rightarrow> bool" where
  "legal_transition E_active s' = (s' = E_completed \<or> s' = E_disputed \<or> s' = E_refunded \<or> s' = E_cancelled)"
| "legal_transition E_disputed s' = (s' = E_completed \<or> s' = E_refunded)"
| "legal_transition _ _ = False"

text \<open>
  Money into and out of an escrow, read off the transaction table: the debits are the
  \<open>bet\<close> transactions that refer to the escrow (recorded with a negative amount), the
  credits are its \<open>win\<close>, \<open>refund\<close> and \<open>fee\<close> transactions. Value is conserved for an
  escrow when the two sums are equal numbers.
\<close>

definition js_sum :: "jsnum list \<Rightarrow> jsnum" where
  "js_sum xs = foldr js_add xs (Num 0)"

definition debits_into :: "uid \<Rightarrow> db \<Rightarrow> jsnum" where
  "debits_into i d =
     js_sum (map (\<lambda>t. js_neg (t_amount t))
        (filter (\<lambda>t. t_reference_id t = i \<and> t_type t = T_bet) (transactions d)))"

definition credits_out :: "uid \<Rightarrow> db \<Rightarrow> jsnum" where
  "credits_out i d =
     js_sum (map t_amount
        (filter (\<lambda>t. t_reference_id t = i \<and>
                      (t_type t = T_win \<or> t_type t = T_refund \<or> t_type t = T_fee))
                (transactions d)))"

definition conserved :: "uid \<Rightarrow> db \<Rightarrow> bool" where
  "conserved i d = js_eq (debits_into i d) (credits_out i d)"

text \<open>
  What one call of the escrow service may do to the escrow table: nothing; add a new
  active escrow; or move one escrow along an edge of the state machine, its key, its two
  money columns and its bet match as they were.
\<close>

definition moved :: "escrow \<Rightarrow> escrow \<Rightarrow> bool" where
  "moved e0 e1 =
     (e_id e1 = e_id e0 \<and> e_amount e1 = e_amount e0 \<and>
      e_platform_fee e1 = e_platform_fee e0 \<and> e_bet_match_id e1 = e_bet_match_id e0 \<and>
      legal_transition (e_status e0) (e_status e1))"

definition escrow_effect :: "db \<Rightarrow> db \<Rightarrow> bool" where
  "escrow_effect d d' =
     (escrows d' = escrows d \<or>
      (\<exists>esc. e_id esc = next_id (map e_id (escrows d)) \<and> e_status esc = E_active \<and>
             escrows d' = escrows d @ [esc]) \<or>
      (\<exists>e0 e1. Escrow_findByPk (e_id e0) d = Some e0 \<and> moved e0 e1 \<and>
               escrows d' = map (\<lambda>x. if e_id x = e_id e0 then e1 else x) (escrows d)))"

text \<open>
  What a call that rolls its transaction back leaves behind: the store as it was, but for
  the wallets its (at most two) untransacted lookups have created.
\<close>

definition rolled_back :: "env \<Rightarrow> db \<Rightarrow> db \<Rightarrow> bool" where
  "rolled_back env d d' =
     (d' = d \<or> (\<exists>u r. getWallet env u d = (r, d')) \<or>
      (\<exists>u r c u' r'. getWallet env u d = (r, c) \<and> getWallet env u' c = (r', d')))"



section \<open>Scenarios\<close>

text \<open>
  An environment with the default fee of 3 per cent and a store that accepts every
  write its models allow; three users with USD wallets holding 500, 500 and 0; an event
  that starts at time 2000.
\<close>

definition env0 :: env where
  "env0 = \<lparr>PLATFORM_FEE = None, now = 1000, rejects = (\<lambda>_. False),
          stripe_customers_create = (\<lambda>_. None)\<rparr>"

definition usd_wallet :: "uid \<Rightarrow> uid \<Rightarrow> rat \<Rightarrow> wallet" where
  "usd_wallet i userId b =
     \<lparr>w_id = i, w_user_id = userId, w_balance = Num b, w_currency = ''USD'',
      w_status = W_active, w_stripe_customer_id = None\<rparr>"

text \<open>
  Scenario A of the specification: user 1's moneyline bet 1 on the home side, a stake of
  100 at odds of 1.95 (potential payout 195), matched by user 2, whose required stake is
  95.
\<close>

definition bet1 :: bet where
  "bet1 = \<lparr>b_id = 1, b_creator_id = 1, b_event_id = 7, b_bet_type = ''moneyline'',
           b_bet_details = \<lparr>bd_pick = ''home'', bd_spread = None, bd_total = None\<rparr>,
           b_odds = Num (195 / 100), b_stake_amount = Num 100,
           b_potential_payout = Num 195, b_status = B_matched, b_expiry_time = 2000\<rparr>"

definition match1 :: betMatch where
  "match1 = \<lparr>bm_id = 1, bm_bet_id = 1, bm_taker_id = 2, bm_stake_amount = Num 95,
             bm_potential_payout = Num 195, bm_status = BM_active,
             bm_platform_fee = Num (585 / 100), bm_escrow_id = 0\<rparr>"

definition db0 :: db where
  "db0 = \<lparr>users = [\<lparr>u_id = 1\<rparr>, \<lparr>u_id = 2\<rparr>, \<lparr>u_id = 3\<rparr>],
          wallets = [usd_wallet 1 1 500, usd_wallet 2 2 500, usd_wallet 3 3 0],
          transactions = [],
          escrows = [],
          betMatches = [match1],
          bets = [bet1],
          payouts = [],
          events = [\<lparr>ev_id = 7, ev_start_time = 2000\<rparr>]\<rparr>"

text \<open>What \<open>createEscrow\<close> leaves of Scenario A, and the store after that escrow was
  released to user 1.\<close>

definition fundedA :: db where
  "fundedA = snd (createEscrow env0 1 db0)"

definition paidA :: db where
  "paidA = snd (releaseEscrow env0 0 1 fundedA)"

text \<open>Scenario B: the creator's wallet holds 50, less than the stake of 100.\<close>

definition db_poor :: db where
  "db_poor = db0\<lparr>wallets := [usd_wallet 1 1 50, usd_wallet 2 2 500, usd_wallet 3 3 0]\<rparr>"

text \<open>
  Scenario D of the specification, and the rows that the repository's tests seed: bet 1
  at even odds, both stakes 100; an active escrow of 200 with a fee of 6 for match 1, the
  two stakes debited from the wallets and recorded as \<open>bet\<close> transactions.
\<close>

definition bet_even :: bet where
  "bet_even = bet1\<lparr>b_odds := Num 2, b_potential_payout := Num 200\<rparr>"

definition match_even :: betMatch where
  "match_even = match1\<lparr>bm_stake_amount := Num 100, bm_potential_payout := Num 200,
                       bm_platform_fee := Num 6\<rparr>"

definition escrow0 :: escrow where
  "escrow0 = \<lparr>e_id = 0, e_bet_match_id = 1, e_amount = Num 200, e_status = E_active,
              e_winner_id = None, e_platform_fee = Num 6, e_released_at = None,
              e_dispute_reason = None, e_resolution_notes = None, e_resolved_by = None\<rparr>"

definition stake_debit :: "uid \<Rightarrow> uid \<Rightarrow> rat \<Rightarrow> string \<Rightarrow> transaction" where
  "stake_debit i walletId a role =
     \<lparr>t_id = i, t_wallet_id = walletId, t_amount = Num (- a), t_type = T_bet,
      t_status = TS_completed, t_reference_id = 0,
      t_description = Some ''Funds placed in escrow for bet'',
      t_metadata = Some \<lparr>m_escrow_id = 0, m_bet_match_id = 1, m_bet_id = Some 1,
                          m_role = Some role, m_dispute_resolved_by = None\<rparr>\<rparr>"

definition funded0 :: db where
  "funded0 = db0\<lparr>wallets := [usd_wallet 1 1 400, usd_wallet 2 2 400, usd_wallet 3 3 0],
                transactions := [stake_debit 0 1 100 ''creator'', stake_debit 1 2 100 ''taker''],
                escrows := [escrow0],
                betMatches := [match_even],
                bets := [bet_even]\<rparr>"

text \<open>The store after user 1 disputed that escrow, after the escrow was released to the
  taker, user 2, and after the disputed escrow was refunded by administrator 9.\<close>

definition disputed0 :: db where
  "disputed0 = snd (createDispute env0 0 1 ''result contested'' funded0)"

definition paid0 :: db where
  "paid0 = snd (releaseEscrow env0 0 2 funded0)"

definition refunded0 :: db where
  "refunded0 = snd (resolveDispute env0 0 None 9 ''void'' disputed0)"


text \<open>An open bet of user 1 and the request body that asks for it.\<close>

definition db_open :: db where
  "db_open = db0\<lparr>bets := [bet1\<lparr>b_status := B_open\<rparr>], betMatches := []\<rparr>"

definition data0 :: betData where
  "data0 = \<lparr>d_event_id = 7, d_bet_type = ''moneyline'',
            d_bet_details = \<lparr>bd_pick = ''home'', bd_spread = None, bd_total = None\<rparr>,
            d_odds = Number (Num (195 / 100)), d_stake_amount = Number (Num 100),
            d_expiry_time = None\<rparr>"



section \<open>Auxiliary facts\<close>

lemma bindE_Inr_iff: "bindE m f = Inr y \<longleftrightarrow> (\<exists>x. m = Inr x \<and> f x = Inr y)"
  by (cases m) (auto simp: bindE_def)

lemma bindE_Inl: "m = Inl e \<Longrightarrow> bindE m f = Inl e"
  by (simp add: bindE_def)




lemma find_append_old: "find P xs = Some x \<Longrightarrow> find P (xs @ ys) = Some x"
  by (induction xs) (auto split: if_splits)


lemma find_map_pres:
  "(\<And>x. x \<in> set xs \<Longrightarrow> P (f x) = P x) \<Longrightarrow> find P (map f xs) = map_option f (find P xs)"
  by (induction xs) auto

lemma find_Some_set: "find P xs = Some x \<Longrightarrow> x \<in> set xs \<and> P x"
  by (induction xs) (auto split: if_splits)

lemma in_tx_simps:
  "users (in_tx c t) = users c" "wallets (in_tx c t) = wallets c"
  "transactions (in_tx c t) = transactions t" "escrows (in_tx c t) = escrows t"
  "betMatches (in_tx c t) = betMatches t" "bets (in_tx c t) = bets t"
  "payouts (in_tx c t) = payouts t" "events (in_tx c t) = events t"
  by (simp_all add: in_tx_def)

lemma round_cents_zero: "round_cents 0 = 0"
proof -
  have "\<lfloor>1 / 2 :: rat\<rfloor> = 0" by (simp add: floor_eq_iff)
  then show ?thesis by (simp add: round_cents_def)
qed

lemma dec2_zero: "dec2 (Num 0) = Num 0"
  by (simp add: round_cents_zero)

subsection \<open>Store primitives\<close>

lemma Transaction_create_Inr:
  "Transaction_create env v d = Inr (row, d') \<Longrightarrow>
     tc_type v = Some (t_type row) \<and> t_id row = next_id (map t_id (transactions d)) \<and>
     t_wallet_id row = tc_wallet_id v \<and> t_amount row = dec2 (tc_amount v) \<and>
     t_reference_id row = tc_reference_id v \<and>
     d' = d\<lparr>transactions := transactions d @ [row]\<rparr>"
  by (auto simp: Transaction_create_def Let_def split: option.splits if_splits)


lemma Payout_create_Inr:
  "Payout_create env p d = Inr (row, d') \<Longrightarrow>
     row = p\<lparr>p_id := next_id (map p_id (payouts d)), p_amount := dec2 (p_amount p)\<rparr> \<and>
     d' = d\<lparr>payouts := payouts d @ [row]\<rparr>"
  by (auto simp: Payout_create_def Let_def split: if_splits)

lemma Escrow_create_Inr:
  "Escrow_create env v d = Inr (row, d') \<Longrightarrow>
     e_id row = next_id (map e_id (escrows d)) \<and> e_status row = ec_status v \<and>
     ec_bet_match_id v = Some (e_bet_match_id row) \<and>
     (\<exists>a. ec_amount v = Some a \<and> e_amount row = dec2 a) \<and>
     e_platform_fee row = dec2 (ec_platform_fee v) \<and>
     d' = d\<lparr>escrows := escrows d @ [row]\<rparr>"
  by (auto simp: Escrow_create_def Let_def split: option.splits if_splits)


lemma Escrow_update_Inr:
  "Escrow_update env e d = Inr (row, d') \<Longrightarrow>
     row = e \<and> d' = d\<lparr>escrows := map (\<lambda>x. if e_id x = e_id e then e else x) (escrows d)\<rparr>"
  by (auto simp: Escrow_update_def split: if_splits)

lemma BetMatch_update_Inr:
  "BetMatch_update env m d = Inr d' \<Longrightarrow>
     d' = d\<lparr>betMatches := map (\<lambda>x. if bm_id x = bm_id m then m else x) (betMatches d)\<rparr>"
  by (auto simp: BetMatch_update_def split: if_splits)

lemma updateBalance_Inr:
  "updateBalance env i a d = Inr (w', d') \<Longrightarrow>
     \<exists>w. find (\<lambda>x. w_id x = i) (wallets d) = Some w \<and> w_status w = W_active \<and>
         \<not> js_lt (js_add (w_balance w) a) (Num 0) \<and>
         w' = w\<lparr>w_balance := js_add (w_balance w) a\<rparr> \<and>
         d' = d\<lparr>wallets := map (\<lambda>x. if w_id x = w_id w
                                     then w\<lparr>w_balance := dec2 (js_add (w_balance w) a)\<rparr>
                                     else x) (wallets d)\<rparr>"
  by (auto simp: updateBalance_def Wallet_save_def Wallet_findByPk_def Let_def
      split: option.splits if_splits)

lemma updateBalance_frame:
  "updateBalance env i a d = Inr (w', d') \<Longrightarrow>
     users d' = users d \<and> transactions d' = transactions d \<and> escrows d' = escrows d \<and>
     betMatches d' = betMatches d \<and> bets d' = bets d \<and> payouts d' = payouts d \<and>
     events d' = events d"
  by (drule updateBalance_Inr) auto

lemma getWallet_frame:
  "getWallet env u d = (r, c) \<Longrightarrow>
     transactions c = transactions d \<and> escrows c = escrows d \<and>
     betMatches c = betMatches d \<and> bets c = bets d \<and> payouts c = payouts d \<and>
     events c = events d \<and> users c = users d"
  by (auto simp: getWallet_def createWallet_def Wallet_create_def Let_def
      split: option.splits if_splits sum.splits prod.splits)



subsection \<open>What a successful call did\<close>

lemma createEscrow_InrE:
  assumes "createEscrow env i d = (Inr r, d')"
  obtains (ok) bm b er esc t1 cw c1 tw c2 cr ct t2 tr tt t3 w1 t4 w2 t5 where
    "BetMatch_findByPk i d = Some bm" "Escrow_findOne i d = None"
    "Bet_findByPk (bm_bet_id bm) d = Some b"
    "Escrow_create env er d = Inr (esc, t1)"
    "getWallet env (b_creator_id b) d = (Inr cw, c1)"
    "getWallet env (bm_taker_id bm) c1 = (Inr tw, c2)"
    "Transaction_create env cr (in_tx c2 t1) = Inr (ct, t2)"
    "Transaction_create env tr t2 = Inr (tt, t3)"
    "updateBalance env (w_id cw) (js_neg (ToNumber (bet_amount b))) t3 = Inr (w1, t4)"
    "updateBalance env (w_id tw) (js_neg (ToNumber (bet_amount b))) t4 = Inr (w2, t5)"
    "BetMatch_update env (bm\<lparr>bm_status := BM_active\<rparr>) t5 = Inr d'"
    "ec_status er = E_active" "ec_bet_match_id er = Some i"
    "r_escrow_id r = e_id esc"
    "r_amount r = js_mul (parseFloat (bet_amount b)) (Num 2)"
    "r_platform_fee r =
       js_mul (js_mul (parseFloat (bet_amount b)) (Num 2)) (Num (PLATFORM_FEE_PERCENT env))"
proof -
  from assms show thesis
    unfolding createEscrow_def Let_def
    apply (simp split: option.splits sum.splits prod.splits if_splits)
    apply (clarsimp simp: bindE_Inr_iff)
    apply (rule that)
    apply assumption+
    apply simp_all
    done
qed

lemma releaseEscrow_InrE:
  assumes "releaseEscrow env i winnerId d = (Inr r, d')"
  obtains (ok) esc bm b wlt c1 xr tx t1 w1 t2 pr po t3 er esc' t4 where
    "Escrow_findByPk i d = Some esc" "e_status esc = E_active"
    "BetMatch_findByPk (e_bet_match_id esc) d = Some bm"
    "Bet_findByPk (bm_bet_id bm) d = Some b"
    "getWallet env winnerId d = (Inr wlt, c1)"
    "Transaction_create env xr c1 = Inr (tx, t1)"
    "updateBalance env (w_id wlt) (js_sub (e_amount esc) (e_platform_fee esc)) t1 = Inr (w1, t2)"
    "Payout_create env pr t2 = Inr (po, t3)"
    "Escrow_update env er t3 = Inr (esc', t4)"
    "BetMatch_update env (bm\<lparr>bm_status := BM_settled\<rparr>) t4 = Inr d'"
    "r = \<lparr>r_payout_id = p_id po, r_winnings = js_sub (e_amount esc) (e_platform_fee esc),
          r_payout_status = P_completed, r_released_escrow_id = e_id esc\<rparr>"
    "winnerId = b_creator_id b \<or> winnerId = bm_taker_id bm"
    "tc_wallet_id xr = w_id wlt" "tc_amount xr = js_sub (e_amount esc) (e_platform_fee esc)"
    "tc_type xr = Some T_win" "tc_reference_id xr = e_id esc"
    "p_user_id pr = winnerId" "p_escrow_id pr = e_id esc"
    "p_amount pr = js_sub (e_amount esc) (e_platform_fee esc)" "p_transaction_id pr = t_id tx"
    "er = esc\<lparr>e_status := E_completed, e_winner_id := Some winnerId,
                 e_released_at := Some (now env)\<rparr>"
proof -
  from assms show thesis
    unfolding releaseEscrow_def Let_def
    apply (simp split: option.splits sum.splits prod.splits if_splits)
    apply (clarsimp simp: bindE_Inr_iff)
    apply (rule that)
    apply assumption+
    apply simp_all
    done
qed

lemma createDispute_effect:
  assumes "createDispute env i userId reason d = (res, d')"
  shows "(\<exists>e. res = Inl e \<and> d' = d) \<or>
    (\<exists>esc. Escrow_findByPk i d = Some esc \<and> e_status esc = E_active \<and>
       escrows d' = map (\<lambda>x. if e_id x = e_id esc
                              then esc\<lparr>e_status := E_disputed, e_dispute_reason := Some reason\<rparr>
                              else x) (escrows d) \<and>
       transactions d' = transactions d \<and> wallets d' = wallets d)"
  using assms unfolding createDispute_def
  apply (simp split: option.splits sum.splits prod.splits if_splits)
  apply (auto dest!: Escrow_update_Inr BetMatch_update_Inr)
  done

lemma resolveDispute_winner_InrE:
  assumes "resolveDispute env i (Some winner) adminId notes d = (Inr r, d')"
  obtains (ok) esc0 er0 esc t1 er1 esc' t2 wlt c1 xr tx t3 w1 t4 pr po t5 bm where
    "Escrow_findByPk i d = Some esc0" "e_status esc0 = E_disputed"
    "Escrow_update env er0 d = Inr (esc, t1)"
    "Escrow_update env er1 t1 = Inr (esc', t2)"
    "getWallet env winner d = (Inr wlt, c1)"
    "Transaction_create env xr (in_tx c1 t2) = Inr (tx, t3)"
    "updateBalance env (w_id wlt) (js_sub (e_amount esc') (e_platform_fee esc')) t3 = Inr (w1, t4)"
    "Payout_create env pr t4 = Inr (po, t5)"
    "BetMatch_findByPk (e_bet_match_id esc') d = Some bm"
    "BetMatch_update env (bm\<lparr>bm_status := BM_settled\<rparr>) t5 = Inr d'"
    "r = Winner_declared winner (p_id po) (js_sub (e_amount esc') (e_platform_fee esc'))"
    "er0 = esc0\<lparr>e_resolved_by := Some adminId, e_resolution_notes := Some notes\<rparr>"
    "er1 = esc\<lparr>e_status := E_completed, e_winner_id := Some winner,
                 e_released_at := Some (now env)\<rparr>"
proof -
  from assms show thesis
    unfolding resolveDispute_def Let_def
    apply (simp split: option.splits sum.splits prod.splits if_splits)
    apply (clarsimp simp: bindE_Inr_iff split: option.splits)
    apply (rule that)
    apply assumption+
    apply simp_all
    done
qed

lemma resolveDispute_refund_InrE:
  assumes "resolveDispute env i None adminId notes d = (Inr r, d')"
  obtains (ok) esc0 er0 esc t1 bm b cw c1 tw c2 cr ct t2 tr tt t3 w1 t4 w2 t5 er1 esc' t6 where
    "Escrow_findByPk i d = Some esc0" "e_status esc0 = E_disputed"
    "Escrow_update env er0 d = Inr (esc, t1)"
    "BetMatch_findByPk (e_bet_match_id esc) d = Some bm"
    "Bet_findByPk (bm_bet_id bm) d = Some b"
    "getWallet env (b_creator_id b) d = (Inr cw, c1)"
    "getWallet env (bm_taker_id bm) c1 = (Inr tw, c2)"
    "Transaction_create env cr (in_tx c2 t1) = Inr (ct, t2)"
    "Transaction_create env tr t2 = Inr (tt, t3)"
    "updateBalance env (w_id cw) (js_div (e_amount esc) (Num 2)) t3 = Inr (w1, t4)"
    "updateBalance env (w_id tw) (js_div (e_amount esc) (Num 2)) t4 = Inr (w2, t5)"
    "Escrow_update env er1 t5 = Inr (esc', t6)"
    "BetMatch_update env (bm\<lparr>bm_status := BM_cancelled\<rparr>) t6 = Inr d'"
    "r = Refunded (t_id ct) (t_id tt) (js_div (e_amount esc) (Num 2))"
    "er0 = esc0\<lparr>e_resolved_by := Some adminId, e_resolution_notes := Some notes\<rparr>"
    "er1 = esc\<lparr>e_status := E_refunded, e_released_at := Some (now env)\<rparr>"
    "tc_wallet_id cr = w_id cw" "tc_amount cr = js_div (e_amount esc) (Num 2)"
    "tc_type cr = Some T_refund" "tc_reference_id cr = e_id esc"
    "tc_wallet_id tr = w_id tw" "tc_amount tr = js_div (e_amount esc) (Num 2)"
    "tc_type tr = Some T_refund" "tc_reference_id tr = e_id esc"
proof -
  from assms show thesis
    unfolding resolveDispute_def Let_def
    apply (simp split: option.splits sum.splits prod.splits if_splits)
    apply (clarsimp simp: bindE_Inr_iff split: option.splits)
    apply (rule that)
    apply assumption+
    apply simp_all
    done
qed

subsection \<open>What a failed call left\<close>

lemma rolled_back_frame:
  "rolled_back env d d' \<Longrightarrow>
     transactions d' = transactions d \<and> escrows d' = escrows d \<and>
     betMatches d' = betMatches d \<and> bets d' = bets d \<and> payouts d' = payouts d"
  unfolding rolled_back_def by (auto dest!: getWallet_frame)

lemma createEscrow_Inl: "createEscrow env i d = (Inl e, d') \<Longrightarrow> rolled_back env d d'"
  unfolding createEscrow_def Let_def rolled_back_def
  by (simp split: option.splits sum.splits prod.splits if_splits) blast+

lemma releaseEscrow_Inl: "releaseEscrow env i w d = (Inl e, d') \<Longrightarrow> rolled_back env d d'"
  unfolding releaseEscrow_def Let_def rolled_back_def
  by (simp split: option.splits sum.splits prod.splits if_splits) blast+

lemma resolveDispute_Inl:
  "resolveDispute env i w a n d = (Inl e, d') \<Longrightarrow> rolled_back env d d'"
  unfolding resolveDispute_def Let_def rolled_back_def
  by (simp split: option.splits sum.splits prod.splits if_splits) blast+

subsection \<open>Effect of each call on the escrow table\<close>

lemma rolled_back_effect: "rolled_back env d d' \<Longrightarrow> escrow_effect d d'"
  by (drule rolled_back_frame) (simp add: escrow_effect_def)

lemma map_upd_twice:
  "e_id e1 = e_id e0 \<Longrightarrow>
   map (\<lambda>x. if e_id x = e_id e1 then e2 else x) (map (\<lambda>x. if e_id x = e_id e0 then e1 else x) xs)
   = map (\<lambda>x. if e_id x = e_id e0 then e2 else x) xs"
  by (induction xs) auto

lemma Escrow_findByPk_id: "Escrow_findByPk i d = Some e \<Longrightarrow> e_id e = i"
  by (auto simp: Escrow_findByPk_def dest: find_Some_set)

lemma createEscrow_effect: "escrow_effect d (snd (createEscrow env i d))"
proof (cases "createEscrow env i d")
  case (Pair res d')
  show ?thesis
  proof (cases res)
    case (Inl e)
    with Pair show ?thesis by (auto dest!: createEscrow_Inl intro: rolled_back_effect)
  next
    case (Inr r)
    with Pair have "createEscrow env i d = (Inr r, d')" by simp
    then have "\<exists>esc. e_id esc = next_id (map e_id (escrows d)) \<and> e_status esc = E_active \<and>
                   escrows d' = escrows d @ [esc]"
    proof (cases rule: createEscrow_InrE)
      case (ok bm b er esc t1 cw c1 tw c2 cr ct t2 tr tt t3 w1 t4 w2 t5)
      then have "e_id esc = next_id (map e_id (escrows d)) \<and> e_status esc = E_active \<and>
                   escrows d' = escrows d @ [esc]"
        by (auto simp: in_tx_simps
            dest!: Escrow_create_Inr Transaction_create_Inr updateBalance_Inr BetMatch_update_Inr)
      then show ?thesis by blast
    qed
    with Pair show ?thesis by (simp add: escrow_effect_def)
  qed
qed

lemma releaseEscrow_effect: "escrow_effect d (snd (releaseEscrow env i w d))"
proof (cases "releaseEscrow env i w d")
  case (Pair res d')
  show ?thesis
  proof (cases res)
    case (Inl e)
    with Pair show ?thesis by (auto dest!: releaseEscrow_Inl intro: rolled_back_effect)
  next
    case (Inr r)
    with Pair have "releaseEscrow env i w d = (Inr r, d')" by simp
    then have "\<exists>e0 e1. Escrow_findByPk (e_id e0) d = Some e0 \<and> moved e0 e1 \<and>
                   escrows d' = map (\<lambda>x. if e_id x = e_id e0 then e1 else x) (escrows d)"
    proof (cases rule: releaseEscrow_InrE)
      case (ok esc bm b wlt c1 xr tx t1 w1 t2 pr po t3 er esc' t4)
      from ok(1) have id: "e_id esc = i" by (rule Escrow_findByPk_id)
      from ok have "moved esc er \<and>
                   escrows d' = map (\<lambda>x. if e_id x = e_id esc then er else x) (escrows d)"
        by (auto simp: moved_def
            dest!: Escrow_update_Inr Transaction_create_Inr Payout_create_Inr
                   updateBalance_Inr BetMatch_update_Inr getWallet_frame)
      with ok(1) id show ?thesis by blast
    qed
    with Pair show ?thesis by (simp add: escrow_effect_def)
  qed
qed

lemma createDispute_escrow_effect: "escrow_effect d (snd (createDispute env i u reason d))"
proof (cases "createDispute env i u reason d")
  case (Pair res d')
  from createDispute_effect[OF Pair] show ?thesis
  proof
    assume "\<exists>e. res = Inl e \<and> d' = d"
    with Pair show ?thesis by (auto simp: escrow_effect_def)
  next
    assume "\<exists>esc. Escrow_findByPk i d = Some esc \<and> e_status esc = E_active \<and>
       escrows d' = map (\<lambda>x. if e_id x = e_id esc
                              then esc\<lparr>e_status := E_disputed, e_dispute_reason := Some reason\<rparr>
                              else x) (escrows d) \<and>
       transactions d' = transactions d \<and> wallets d' = wallets d"
    then obtain esc where e: "Escrow_findByPk i d = Some esc" "e_status esc = E_active"
       "escrows d' = map (\<lambda>x. if e_id x = e_id esc
                              then esc\<lparr>e_status := E_disputed, e_dispute_reason := Some reason\<rparr>
                              else x) (escrows d)"
      by blast
    from e(1) have id: "e_id esc = i" by (rule Escrow_findByPk_id)
    have "moved esc (esc\<lparr>e_status := E_disputed, e_dispute_reason := Some reason\<rparr>)"
      using e(2) by (simp add: moved_def)
    with e id have "\<exists>e0 e1. Escrow_findByPk (e_id e0) d = Some e0 \<and> moved e0 e1 \<and>
                   escrows d' = map (\<lambda>x. if e_id x = e_id e0 then e1 else x) (escrows d)"
      by (intro exI[of _ esc] exI[of _ "esc\<lparr>e_status := E_disputed, e_dispute_reason := Some reason\<rparr>"])
         simp
    with Pair show ?thesis by (simp add: escrow_effect_def)
  qed
qed

lemma resolveDispute_effect: "escrow_effect d (snd (resolveDispute env i w a n d))"
proof (cases "resolveDispute env i w a n d")
  case (Pair res d')
  show ?thesis
  proof (cases res)
    case (Inl e)
    with Pair show ?thesis by (auto dest!: resolveDispute_Inl intro: rolled_back_effect)
  next
    case (Inr r)
    with Pair have *: "resolveDispute env i w a n d = (Inr r, d')" by simp
    have "\<exists>e0 e1. Escrow_findByPk (e_id e0) d = Some e0 \<and> moved e0 e1 \<and>
                   escrows d' = map (\<lambda>x. if e_id x = e_id e0 then e1 else x) (escrows d)"
    proof (cases w)
      case (Some winner)
      with * have "resolveDispute env i (Some winner) a n d = (Inr r, d')" by simp
      then show ?thesis
      proof (cases rule: resolveDispute_winner_InrE)
        case (ok esc0 er0 esc t1 er1 esc' t2 wlt c1 xr tx t3 w1 t4 pr po t5 bm)
        from ok(1) have id: "e_id esc0 = i" by (rule Escrow_findByPk_id)
        from ok have "moved esc0 er1 \<and>
                   escrows d' = map (\<lambda>x. if e_id x = e_id esc0 then er1 else x) (escrows d)"
          by (auto simp: moved_def in_tx_simps map_upd_twice
              dest!: Escrow_update_Inr Transaction_create_Inr Payout_create_Inr
                     updateBalance_Inr BetMatch_update_Inr getWallet_frame)
        with ok(1) id show ?thesis by blast
      qed
    next
      case None
      with * have "resolveDispute env i None a n d = (Inr r, d')" by simp
      then show ?thesis
      proof (cases rule: resolveDispute_refund_InrE)
        case (ok esc0 er0 esc t1 bm b cw c1 tw c2 cr ct t2 tr tt t3 w1 t4 w2 t5 er1 esc' t6)
        from ok(1) have id: "e_id esc0 = i" by (rule Escrow_findByPk_id)
        from ok have "moved esc0 er1 \<and>
                   escrows d' = map (\<lambda>x. if e_id x = e_id esc0 then er1 else x) (escrows d)"
          by (auto simp: moved_def in_tx_simps map_upd_twice
              dest!: Escrow_update_Inr Transaction_create_Inr
                     updateBalance_Inr BetMatch_update_Inr getWallet_frame)
        with ok(1) id show ?thesis by blast
      qed
    qed
    with Pair show ?thesis by (simp add: escrow_effect_def)
  qed
qed

lemma step_effect: "escrow_effect d (step env x d)"
proof (cases x)
  case (UpdateBalance i a)
  then show ?thesis
    by (auto simp: escrow_effect_def split: sum.splits dest!: updateBalance_frame)
qed (simp_all add: createEscrow_effect releaseEscrow_effect createDispute_escrow_effect
       resolveDispute_effect)

subsection \<open>Escrow rows along a call\<close>

lemma escrow_effect_escrow:
  assumes "escrow_effect d d'" and "Escrow_findByPk i d = Some e"
  shows "\<exists>e'. Escrow_findByPk i d' = Some e' \<and> e_amount e' = e_amount e \<and>
            e_platform_fee e' = e_platform_fee e \<and> e_bet_match_id e' = e_bet_match_id e \<and>
            (e_status e' = e_status e \<or> legal_transition (e_status e) (e_status e'))"
proof -
  from assms(1) consider
    (same) "escrows d' = escrows d"
  | (new) esc where "escrows d' = escrows d @ [esc]"
  | (upd) e0 e1 where "Escrow_findByPk (e_id e0) d = Some e0" "moved e0 e1"
       "escrows d' = map (\<lambda>x. if e_id x = e_id e0 then e1 else x) (escrows d)"
    unfolding escrow_effect_def by blast
  then show ?thesis
  proof cases
    case same
    with assms(2) show ?thesis by (simp add: Escrow_findByPk_def)
  next
    case new
    with assms(2) show ?thesis by (simp add: Escrow_findByPk_def find_append_old)
  next
    case upd
    let ?f = "\<lambda>x. if e_id x = e_id e0 then e1 else x"
    from upd(2) have id1: "e_id e1 = e_id e0" by (simp add: moved_def)
    have "find (\<lambda>x. e_id x = i) (map ?f (escrows d)) = map_option ?f (find (\<lambda>x. e_id x = i) (escrows d))"
      by (rule find_map_pres) (simp add: id1)
    with assms(2) upd(3) have found: "Escrow_findByPk i d' = Some (?f e)"
      by (simp add: Escrow_findByPk_def)
    show ?thesis
    proof (cases "e_id e = e_id e0")
      case True
      from assms(2) have "e_id e = i" by (rule Escrow_findByPk_id)
      with True assms(2) upd(1) have "e = e0" by (metis option.inject)
      moreover from found True have "Escrow_findByPk i d' = Some e1" by simp
      moreover from upd(2) have "e_amount e1 = e_amount e0" "e_platform_fee e1 = e_platform_fee e0"
        "e_bet_match_id e1 = e_bet_match_id e0" "legal_transition (e_status e0) (e_status e1)"
        by (simp_all add: moved_def)
      ultimately show ?thesis by blast
    next
      case False
      with found show ?thesis by simp
    qed
  qed
qed

lemma step_escrow:
  "Escrow_findByPk i d = Some e \<Longrightarrow>
     \<exists>e'. Escrow_findByPk i (step env x d) = Some e' \<and> e_amount e' = e_amount e \<and>
          e_platform_fee e' = e_platform_fee e \<and> e_bet_match_id e' = e_bet_match_id e \<and>
          (e_status e' = e_status e \<or> legal_transition (e_status e) (e_status e'))"
  by (rule escrow_effect_escrow[OF step_effect])

lemma run_escrow:
  "Escrow_findByPk i d = Some e \<Longrightarrow>
     \<exists>e'. Escrow_findByPk i (run env xs d) = Some e' \<and> e_amount e' = e_amount e \<and>
          e_platform_fee e' = e_platform_fee e \<and> e_bet_match_id e' = e_bet_match_id e \<and>
          legal_transition\<^sup>*\<^sup>* (e_status e) (e_status e')"
proof (induction xs arbitrary: d e)
  case Nil
  then show ?case by simp
next
  case (Cons x xs)
  from step_escrow[OF Cons.prems, of env x] obtain e1 where
    e1: "Escrow_findByPk i (step env x d) = Some e1" "e_amount e1 = e_amount e"
        "e_platform_fee e1 = e_platform_fee e" "e_bet_match_id e1 = e_bet_match_id e"
        "e_status e1 = e_status e \<or> legal_transition (e_status e) (e_status e1)"
    by blast
  from Cons.IH[OF e1(1)] obtain e' where
    e': "Escrow_findByPk i (run env xs (step env x d)) = Some e'" "e_amount e' = e_amount e1"
        "e_platform_fee e' = e_platform_fee e1" "e_bet_match_id e' = e_bet_match_id e1"
        "legal_transition\<^sup>*\<^sup>* (e_status e1) (e_status e')"
    by blast
  from e1(5) e'(5) have "legal_transition\<^sup>*\<^sup>* (e_status e) (e_status e')"
    by (auto intro: converse_rtranclp_into_rtranclp)
  with e1 e' show ?case by simp
qed

subsection \<open>Calls of the betting service that cannot complete\<close>

text \<open>
  \<open>settleBet\<close> never returns: \<open>determineWinner\<close> is called on a bet loaded without its
  matches, so the call throws and the transaction is rolled back before any row is
  written.
\<close>

lemma settleBet_throws: "\<exists>err. settleBet env m res s = Inl err"
  by (auto simp: settleBet_def determineWinner_def Let_def split: option.splits)





subsection \<open>Wallet balances along a call\<close>





subsection \<open>What a refund writes\<close>






section \<open>The claims\<close>

subsection \<open>What holds on numbers\<close>

text \<open>
  \<open>updateBalance\<close> refuses a change that would leave a number below zero, and writes
  nothing then; the store keeps a fee to two places, and a release pays the amount less
  the fee of the escrow row.
\<close>

lemma updateBalance_rejects_negative:
  assumes "Wallet_findByPk i d = Some w" and "js_lt (js_add (w_balance w) a) (Num 0)"
  shows "\<exists>e. updateBalance env i a d = Inl e"
    and "w_status w = W_active \<Longrightarrow> updateBalance env i a d = Inl InsufficientFunds"
  using assms by (auto simp: updateBalance_def)

lemma createEscrow_returns_no_number:
  assumes "createEscrow env i d = (Inr r, d')"
  shows "r_amount r = NaN" and "r_platform_fee r = NaN"
  using assms by (auto elim!: createEscrow_InrE simp: bet_amount_def parseFloat_def)

lemma fee_and_payout_on_numbers:
  "map_sum id (e_platform_fee \<circ> fst)
     (Escrow_create env0
        \<lparr>ec_bet_match_id = Some 1, ec_amount = Some (Num (202 / 100)), ec_status = E_active,
         ec_platform_fee = js_mul (Num (202 / 100)) (Num (PLATFORM_FEE_PERCENT env0)),
         ec_creator_amount = None, ec_taker_amount = None\<rparr> db0) = Inr (Num (6 / 100)) \<and>
   fst (releaseEscrow env0 0 2
          (funded0\<lparr>escrows := [escrow0\<lparr>e_amount := Num (202 / 100),
                                        e_platform_fee := Num (6 / 100)\<rparr>]\<rparr>))
     = Inr \<lparr>r_payout_id = 0, r_winnings = Num (196 / 100), r_payout_status = P_completed,
            r_released_escrow_id = 0\<rparr>"
  by code_simp

lemma takeBet_amounts_of_scenario_A:
  "requiredStake_of bet1 = Num 95 \<and> totalPot_of bet1 = Str ''100.0095'' \<and>
   platformFee_of env0 bet1 = Num (3000285 / 1000000) \<and>
   dec2 (js_sub (ToNumber (totalPot_of bet1)) (platformFee_of env0 bet1)) = Num (9701 / 100)"
  by code_simp

lemma bet_calls_of_the_scenarios:
  "createBet env0 1 data0 db0 = Inl StoreError \<and> takeBet env0 2 1 db_open = Inl StoreError"
  by code_simp

subsection \<open>Betting service\<close>


text \<open>
  Claim C10 (a draw settles for the taker). On a moneyline bet whose matches are loaded,
  \<open>determineWinner\<close> returns the taker of the first match whenever the home score
  equals the away score, whichever side the creator picked: a draw is never a push.
\<close>

theorem determineWinner_draw_goes_to_taker:
  "b_bet_type b = ''moneyline'' \<Longrightarrow> home_score r = away_score r \<Longrightarrow>
     determineWinner b (Some (m # ms)) r = Inr (bm_taker_id m)"
  by (simp add: determineWinner_def Let_def)

theorem determineWinner_draw_goes_to_taker_witness:
  "b_bet_type bet1 = ''moneyline'' \<and>
   home_score \<lparr>home_score = 1, away_score = 1\<rparr> = away_score \<lparr>home_score = 1, away_score = 1\<rparr> \<and>
   determineWinner bet1 (Some [match1]) \<lparr>home_score = 1, away_score = 1\<rparr> = Inr 2"
proof -
  have h: "b_bet_type bet1 = ''moneyline''"
    "home_score \<lparr>home_score = 1, away_score = 1\<rparr> = away_score \<lparr>home_score = 1, away_score = 1\<rparr>"
    by (simp_all add: bet1_def)
  have "bm_taker_id match1 = 2" by (simp add: match1_def)
  with determineWinner_draw_goes_to_taker[OF h, of match1 "[]"] h show ?thesis by simp
qed


subsection \<open>Escrow engine\<close>

text \<open>
  Claim C9 (escrow state machine). One call of the escrow service or of
  \<open>updateBalance\<close> leaves the status of every escrow as it is or moves it along one
  edge of the state machine, so over any sequence of calls the status follows a path of
  legal edges. A release or a dispute asked of an escrow that is not active, and a
  resolution asked of an escrow that is not disputed, is rejected with the store
  unchanged. Settlement (\<open>settleBet\<close>) never completes, so it changes no status.
\<close>

theorem escrow_state_machine:
  "(Escrow_findByPk i d = Some e \<longrightarrow>
      (\<exists>e'. Escrow_findByPk i (step env x d) = Some e' \<and>
            (e_status e' = e_status e \<or> legal_transition (e_status e) (e_status e'))) \<and>
      (\<exists>e'. Escrow_findByPk i (run env ops d) = Some e' \<and>
            legal_transition\<^sup>*\<^sup>* (e_status e) (e_status e')) \<and>
      (e_status e \<noteq> E_active \<longrightarrow>
         releaseEscrow env i winnerId d = (Inl (EscrowNotActive (e_status e)), d) \<and>
         createDispute env i userId reason d = (Inl (EscrowNotActive (e_status e)), d)) \<and>
      (e_status e \<noteq> E_disputed \<longrightarrow>
         resolveDispute env i winner adminId remarks d = (Inl (EscrowNotDisputed (e_status e)), d))) \<and>
   (\<exists>err. settleBet env m res s = Inl err)"
proof -
  have "\<exists>e'. Escrow_findByPk i (step env x d) = Some e' \<and>
            (e_status e' = e_status e \<or> legal_transition (e_status e) (e_status e'))"
    if "Escrow_findByPk i d = Some e"
    using step_escrow[OF that, of env x] by blast
  moreover have "\<exists>e'. Escrow_findByPk i (run env ops d) = Some e' \<and>
            legal_transition\<^sup>*\<^sup>* (e_status e) (e_status e')"
    if "Escrow_findByPk i d = Some e"
    using run_escrow[OF that, of env ops] by blast
  moreover have "releaseEscrow env i winnerId d = (Inl (EscrowNotActive (e_status e)), d)"
    "createDispute env i userId reason d = (Inl (EscrowNotActive (e_status e)), d)"
    if "Escrow_findByPk i d = Some e" "e_status e \<noteq> E_active"
    using that by (simp_all add: releaseEscrow_def createDispute_def)
  moreover have "resolveDispute env i winner adminId remarks d = (Inl (EscrowNotDisputed (e_status e)), d)"
    if "Escrow_findByPk i d = Some e" "e_status e \<noteq> E_disputed"
    using that by (simp add: resolveDispute_def)
  ultimately show ?thesis using settleBet_throws by blast
qed

theorem escrow_state_machine_witness:
  "Escrow_findByPk 0 funded0 = Some escrow0 \<and>
   e_status escrow0 \<noteq> E_disputed \<and>
   (\<exists>e'. Escrow_findByPk 0
            (run env0 [OpenDispute 0 2 ''score'', Release 0 1, ResolveDispute 0 None 9 ''void'']
               funded0) = Some e' \<and>
         legal_transition\<^sup>*\<^sup>* (e_status escrow0) (e_status e')) \<and>
   resolveDispute env0 0 (Some 1) 9 ''early'' funded0 =
     (Inl (EscrowNotDisputed (e_status escrow0)), funded0) \<and>
   Escrow_findByPk 0 paid0 =
     Some (escrow0\<lparr>e_status := E_completed, e_winner_id := Some 2, e_released_at := Some 1000\<rparr>) \<and>
   e_status (escrow0\<lparr>e_status := E_completed, e_winner_id := Some 2, e_released_at := Some 1000\<rparr>)
     \<noteq> E_active \<and>
   releaseEscrow env0 0 1 paid0 =
     (Inl (EscrowNotActive
         (e_status (escrow0\<lparr>e_status := E_completed, e_winner_id := Some 2,
                            e_released_at := Some 1000\<rparr>))), paid0) \<and>
   createDispute env0 0 1 ''late'' paid0 =
     (Inl (EscrowNotActive
         (e_status (escrow0\<lparr>e_status := E_completed, e_winner_id := Some 2,
                            e_released_at := Some 1000\<rparr>))), paid0)"
proof -
  let ?c = "escrow0\<lparr>e_status := E_completed, e_winner_id := Some 2, e_released_at := Some 1000\<rparr>"
  have h: "Escrow_findByPk 0 funded0 = Some escrow0" "e_status escrow0 \<noteq> E_disputed"
    by code_simp+
  have hc: "Escrow_findByPk 0 paid0 = Some ?c" "e_status ?c \<noteq> E_active"
    by code_simp+
  note a = escrow_state_machine[where i = 0 and d = funded0 and e = escrow0 and env = env0
      and ops = "[OpenDispute 0 2 ''score'', Release 0 1, ResolveDispute 0 None 9 ''void'']"
      and winner = "Some 1" and adminId = 9 and remarks = "''early''"]
  note b = escrow_state_machine[where i = 0 and d = paid0 and e = "?c" and env = env0
      and winnerId = 1 and userId = 1 and reason = "''late''"]
  from a h have a': "(\<exists>e'. Escrow_findByPk 0
            (run env0 [OpenDispute 0 2 ''score'', Release 0 1, ResolveDispute 0 None 9 ''void'']
               funded0) = Some e' \<and>
         legal_transition\<^sup>*\<^sup>* (e_status escrow0) (e_status e'))"
    "resolveDispute env0 0 (Some 1) 9 ''early'' funded0 =
     (Inl (EscrowNotDisputed (e_status escrow0)), funded0)"
    by blast+
  from b hc have b': "releaseEscrow env0 0 1 paid0 = (Inl (EscrowNotActive (e_status ?c)), paid0)"
    "createDispute env0 0 1 ''late'' paid0 = (Inl (EscrowNotActive (e_status ?c)), paid0)"
    by blast+
  from h hc a' b' show ?thesis by blast
qed

text \<open>
  Claim C6 (dispute resolution with a winner behaves as release). The escrow of match 1,
  between users 1 and 2, is disputed and resolved in favour of user 3, who is no party
  to the bet: \<open>resolveDispute\<close> returns a payout of 194, marks the escrow completed with
  winner 3 and credits user 3's wallet, whereas \<open>releaseEscrow\<close> with the same winner on
  the same escrow while active throws 'Winner is not part of this bet'.
\<close>

theorem resolveDispute_pays_a_non_party:
  "map b_creator_id (bets disputed0) = [1] \<and> map bm_taker_id (betMatches disputed0) = [2] \<and>
   fst (resolveDispute env0 0 (Some 3) 9 ''outsider'' disputed0)
     = Inr (Winner_declared 3 0 (Num 194)) \<and>
   map e_status (escrows (snd (resolveDispute env0 0 (Some 3) 9 ''outsider'' disputed0)))
     = [E_completed] \<and>
   map e_winner_id (escrows (snd (resolveDispute env0 0 (Some 3) 9 ''outsider'' disputed0)))
     = [Some 3] \<and>
   balance_of 3 disputed0 = Num 0 \<and>
   balance_of 3 (snd (resolveDispute env0 0 (Some 3) 9 ''outsider'' disputed0)) = Num 194 \<and>
   releaseEscrow env0 0 3 funded0 = (Inl WinnerNotParty, funded0)"
  by code_simp

text \<open>
  Claim C7 (atomicity). The escrow of match 1 is active and user 1, a party, disputes it:
  \<open>createDispute\<close> marks the escrow disputed and then asks the bet match to take the
  state \<open>disputed\<close>, which the BetMatch model does not list; the call throws, yet the
  escrow is left disputed while the bet match is still active. In Scenario B, where the
  creator holds 50 and the stake is 100, \<open>createEscrow\<close> does not throw 'Creator has
  insufficient funds': it compares the balance with \<open>bet.amount\<close>, which no bet has,
  returns an escrow whose amount is not a number and leaves both parties' balances not
  a number.
\<close>

theorem createDispute_leaves_partial_write:
  "map e_status (escrows funded0) = [E_active] \<and>
   map bm_status (betMatches funded0) = [BM_active] \<and>
   fst (createDispute env0 0 1 ''result contested'' funded0) = Inl StoreError \<and>
   map e_status (escrows (snd (createDispute env0 0 1 ''result contested'' funded0)))
     = [E_disputed] \<and>
   map bm_status (betMatches (snd (createDispute env0 0 1 ''result contested'' funded0)))
     = [BM_active] \<and>
   map w_balance (wallets db_poor) = [Num 50, Num 500, Num 0] \<and>
   fst (createEscrow env0 1 db_poor)
     = Inr \<lparr>r_escrow_id = 0, r_amount = NaN, r_platform_fee = NaN, r_status = E_active,
            r_creator_transaction_id = 0, r_taker_transaction_id = 1\<rparr> \<and>
   map w_balance (wallets (snd (createEscrow env0 1 db_poor))) = [NaN, NaN, Num 0]"
  by code_simp

text \<open>
  Claim C1 (conservation of escrow value). Scenario A is funded by \<open>createEscrow\<close> and
  released to user 1: the two debits and the win are recorded with an amount that is
  not a number, so the sum of the debits and the sum of the credits are no equal
  numbers. Where an escrow row holds numbers (200 with a fee of 6, both stakes of 100
  debited), the release records one win of 194 and nothing for the fee of 6: debits of
  200 stand against credits of 194. The refund of that escrow records two refunds of
  100, which equal the debits.
\<close>

theorem release_does_not_conserve_value:
  "map t_type (transactions paidA) = [T_bet, T_bet, T_win] \<and>
   map t_amount (transactions paidA) = [NaN, NaN, NaN] \<and>
   map e_status (escrows paidA) = [E_completed] \<and>
   debits_into 0 paidA = NaN \<and> credits_out 0 paidA = NaN \<and> \<not> conserved 0 paidA \<and>
   map e_status (escrows paid0) = [E_completed] \<and>
   map t_type (transactions paid0) = [T_bet, T_bet, T_win] \<and>
   map t_amount (transactions paid0) = [Num (- 100), Num (- 100), Num 194] \<and>
   debits_into 0 paid0 = Num 200 \<and> credits_out 0 paid0 = Num 194 \<and> \<not> conserved 0 paid0 \<and>
   map e_status (escrows refunded0) = [E_refunded] \<and>
   debits_into 0 refunded0 = Num 200 \<and> credits_out 0 refunded0 = Num 200 \<and>
   conserved 0 refunded0"
  by code_simp

text \<open>
  Claim C2 (escrow amount). In Scenario A the creator's stake is 100 and the taker's
  required stake is 95. \<open>createEscrow\<close> returns an amount that is not a number and
  stores it, instead of 195: it doubles \<open>bet.amount\<close>, an attribute that the Bet model
  does not have. \<open>takeBet\<close> computes the taker's stake of 95 from the same bet.
\<close>

theorem createEscrow_amount_is_not_a_number:
  "Bet_findByPk 1 db0 = Some bet1 \<and> BetMatch_findByPk 1 db0 = Some match1 \<and>
   b_stake_amount bet1 = Num 100 \<and> b_odds bet1 = Num (195 / 100) \<and>
   b_potential_payout bet1 = Num 195 \<and> bm_stake_amount match1 = Num 95 \<and>
   requiredStake_of bet1 = Num 95 \<and>
   fst (createEscrow env0 1 db0)
     = Inr \<lparr>r_escrow_id = 0, r_amount = NaN, r_platform_fee = NaN, r_status = E_active,
            r_creator_transaction_id = 0, r_taker_transaction_id = 1\<rparr> \<and>
   map e_amount (escrows fundedA) = [NaN] \<and>
   map e_amount (escrows paidA) = [NaN]"
  by code_simp


text \<open>
  Claim C8 (wallet non-negativity). In Scenario A every balance is at least zero. After
  \<open>createEscrow\<close> the balances of the two parties are not a number, so \<open>balance >= 0\<close>
  is false of them: \<open>updateBalance\<close> was handed \<open>-bet.amount\<close>, which is not a number,
  and its guard \<open>balance + amount < 0\<close> is false of it. A debit of 600 from a balance of
  500 is refused with 'Insufficient funds'.
\<close>

theorem balances_become_not_a_number:
  "nonneg db0 \<and> map w_balance (wallets db0) = [Num 500, Num 500, Num 0] \<and>
   map w_balance (wallets (step env0 (CreateEscrow 1) db0)) = [NaN, NaN, Num 0] \<and>
   \<not> nonneg (step env0 (CreateEscrow 1) db0) \<and>
   map w_balance (wallets (step env0 (UpdateBalance 1 NaN) db0)) = [NaN, Num 500, Num 0] \<and>
   \<not> nonneg (step env0 (UpdateBalance 1 NaN) db0) \<and>
   updateBalance env0 1 (Num (- 600)) db0 = Inl InsufficientFunds"
  by code_simp




end
